theory Spec2Isabelle
  imports Main
begin

section \<open>JavaScript values as the analysis engine sees them\<close>

text \<open>
  \<^verbatim>\<open>src/server/services/AnalysisEngine.js\<close> walks whatever object the parser
  front-end returns: it never looks at a node class, only at properties
  (\<^verbatim>\<open>node.type\<close>, \<^verbatim>\<open>node.loc.start.line\<close>, ...) and at
  \<^verbatim>\<open>typeof\<close>/\<^verbatim>\<open>Array.isArray\<close>. The model therefore keeps the tree untyped.
  An object is the list of its own enumerable properties in \<^verbatim>\<open>for ... in\<close> order
  (keys are distinct in JavaScript; a later duplicate of a key in the list models
  nothing). Numbers are the integers, which is what line numbers, columns, lengths and
  counters are.
\<close>

datatype jsval =
    JUndefined
  | JNull
  | JBool bool
  | JNum int
  | JStr string
  | JArr "jsval list"
  | JObj "(string \<times> jsval) list"

text \<open>
  A thrown value, with its \<^verbatim>\<open>message\<close>. \<open>Error\<close> is what a parser front-end
  throws; \<open>TypeError\<close> is what the engine's own property reads and method calls throw
  (the message texts are V8's).
\<close>

datatype js_error = Error string | TypeError string

fun message :: "js_error \<Rightarrow> string" where
  "message (Error m) = m"
| "message (TypeError m) = m"

text \<open>\<^verbatim>\<open>typeof v === 'object' && v !== null\<close>\<close>

fun is_object :: "jsval \<Rightarrow> bool" where
  "is_object (JArr _) = True"
| "is_object (JObj _) = True"
| "is_object _ = False"

text \<open>\<^verbatim>\<open>Array.isArray(v)\<close>\<close>

fun isArray :: "jsval \<Rightarrow> bool" where
  "isArray (JArr _) = True"
| "isArray _ = False"

text \<open>The truth value of \<^verbatim>\<open>v\<close> in a condition (\<^verbatim>\<open>if (v)\<close>, \<^verbatim>\<open>v && ...\<close>).\<close>

fun truthy :: "jsval \<Rightarrow> bool" where
  "truthy JUndefined = False"
| "truthy JNull = False"
| "truthy (JBool b) = b"
| "truthy (JNum n) = (n \<noteq> 0)"
| "truthy (JStr s) = (s \<noteq> [])"
| "truthy (JArr _) = True"
| "truthy (JObj _) = True"

text \<open>
  \<^verbatim>\<open>v.k\<close> for a base that is neither \<^verbatim>\<open>null\<close> nor \<^verbatim>\<open>undefined\<close>, and a
  property name \<open>k\<close> that is one of the identifiers the engine reads (none of them is
  defined on a prototype except \<^verbatim>\<open>length\<close> of arrays and strings).
\<close>

fun get_prop :: "jsval \<Rightarrow> string \<Rightarrow> jsval" where
  "get_prop (JObj fs) k = (case map_of fs k of Some v \<Rightarrow> v | None \<Rightarrow> JUndefined)"
| "get_prop (JArr xs) k = (if k = ''length'' then JNum (int (length xs)) else JUndefined)"
| "get_prop (JStr s) k = (if k = ''length'' then JNum (int (length s)) else JUndefined)"
| "get_prop _ k = JUndefined"

text \<open>\<^verbatim>\<open>v.k\<close> for any base: reading a property of \<^verbatim>\<open>null\<close> or \<^verbatim>\<open>undefined\<close> throws.\<close>

fun read_prop :: "jsval \<Rightarrow> string \<Rightarrow> js_error + jsval" where
  "read_prop JUndefined k =
     Inl (TypeError (''Cannot read properties of undefined (reading '' @ [CHR 0x27] @ k @ [CHR 0x27] @ '')''))"
| "read_prop JNull k =
     Inl (TypeError (''Cannot read properties of null (reading '' @ [CHR 0x27] @ k @ [CHR 0x27] @ '')''))"
| "read_prop v k = Inr (get_prop v k)"

text \<open>\<^verbatim>\<open>v.type === name\<close>, for a base that is an object.\<close>

definition has_type :: "jsval \<Rightarrow> string \<Rightarrow> bool" where
  "has_type v name = (get_prop v ''type'' = JStr name)"

subsection \<open>Numbers and values as text\<close>

text \<open>The decimal digits of a natural number, as a template literal prints them.\<close>

function digits :: "nat \<Rightarrow> string" where
  "digits n =
     (if n < 10 then [char_of (48 + n)]
      else digits (n div 10) @ [char_of (48 + n mod 10)])"
  by pat_completeness auto
termination
  by (relation "measure (\<lambda>n. n)") auto

definition show_int :: "int \<Rightarrow> string" where
  "show_int i = (if i < 0 then CHR ''-'' # digits (nat (- i)) else digits (nat i))"

fun join :: "string \<Rightarrow> string list \<Rightarrow> string" where
  "join sep [] = []"
| "join sep [x] = x"
| "join sep (x # y # ys) = x @ sep @ join sep (y # ys)"

text \<open>
  \<^verbatim>\<open>`${v}`\<close>: the string a template literal puts in place of a value. An array prints
  its elements separated by commas, \<^verbatim>\<open>null\<close> and \<^verbatim>\<open>undefined\<close> elements as nothing;
  a plain object prints as \<^verbatim>\<open>[object Object]\<close>.
\<close>

fun js_to_string :: "jsval \<Rightarrow> string" where
  "js_to_string JUndefined = ''undefined''"
| "js_to_string JNull = ''null''"
| "js_to_string (JBool b) = (if b then ''true'' else ''false'')"
| "js_to_string (JNum n) = show_int n"
| "js_to_string (JStr s) = s"
| "js_to_string (JArr xs) =
     join '','' (map (\<lambda>x. if x = JUndefined \<or> x = JNull then [] else js_to_string x) xs)"
| "js_to_string (JObj fs) = ''[object Object]''"

text \<open>
  \<^verbatim>\<open>v > n\<close> for a number \<open>n\<close>: \<^verbatim>\<open>undefined\<close> and plain objects compare as NaN
  (false), \<^verbatim>\<open>null\<close> as 0, booleans as 0 and 1. Strings and arrays, which JavaScript
  would first convert to a number, are not converted here: they compare false.
\<close>

fun js_gt :: "jsval \<Rightarrow> int \<Rightarrow> bool" where
  "js_gt (JNum m) n = (m > n)"
| "js_gt (JBool b) n = ((if b then 1 else 0) > n)"
| "js_gt JNull n = (0 > n)"
| "js_gt _ n = False"

section \<open>The tree walker\<close>

text \<open>
  \<^verbatim>\<open>traverseAST(node, callback, parent = null)\<close> sets \<^verbatim>\<open>node.parent\<close> and calls
  the callback on the node, then walks the node's own properties in order, the
  property \<^verbatim>\<open>parent\<close> excepted: every object in an array-valued property, and every
  object-valued property that has a truthy \<^verbatim>\<open>type\<close>.

  The callbacks read \<^verbatim>\<open>node.parent\<close> and look the node up in
  \<^verbatim>\<open>parent.body\<close> by reference (\<^verbatim>\<open>indexOf\<close>). Values of the model have no
  reference identity, so the walker hands the callback a \<open>visit\<close>: the node, the parent
  it was reached from (\<open>JNull\<close> at the root), and the place it hangs at under that
  parent, which is the property name and, inside an array, the array index. In a tree
  that place identifies the node.
\<close>

record visit =
  node :: jsval
  parent :: jsval
  key :: string
  index :: "nat option"

text \<open>
  The properties \<^verbatim>\<open>for (const key in node)\<close> goes through: those of an object in
  their order, and for an array its indices, as the strings \<^verbatim>\<open>"0"\<close>, \<^verbatim>\<open>"1"\<close>, ...
\<close>

definition index_entries :: "jsval list \<Rightarrow> (string \<times> jsval) list" where
  "index_entries xs = zip (map digits [0..<length xs]) xs"

fun own_entries :: "jsval \<Rightarrow> (string \<times> jsval) list" where
  "own_entries (JObj fs) = fs"
| "own_entries (JArr xs) = index_entries xs"
| "own_entries _ = []"

text \<open>The walk goes down into strictly smaller values; these sizes show that it ends.\<close>

definition entries_weight :: "(string \<times> jsval) list \<Rightarrow> nat" where
  "entries_weight es = sum_list (map (\<lambda>e. Suc (size (snd e))) es)"

definition children_weight :: "jsval list \<Rightarrow> nat" where
  "children_weight cs = sum_list (map (\<lambda>c. Suc (size c)) cs)"

lemma entries_weight_simps [simp]:
  "entries_weight [] = 0"
  "entries_weight ((k, v) # es) = Suc (size v) + entries_weight es"
  by (simp_all add: entries_weight_def)

lemma children_weight_simps [simp]:
  "children_weight [] = 0"
  "children_weight (c # cs) = Suc (size c) + children_weight cs"
  by (simp_all add: children_weight_def)

lemma entries_weight_zip:
  "length ks = length xs \<Longrightarrow> entries_weight (zip ks xs) = children_weight xs"
  by (induction ks xs rule: list_induct2) simp_all

lemma children_weight_size: "children_weight cs < size (JArr cs)"
  by (induction cs) simp_all

lemma entries_weight_obj: "entries_weight fs < size (JObj fs)"
  by (induction fs) auto

lemma own_entries_weight: "is_object v \<Longrightarrow> entries_weight (own_entries v) < size v"
  by (cases v)
     (simp_all add: index_entries_def entries_weight_zip children_weight_size
        entries_weight_obj del: jsval.size)

lemma own_entries_weight_le: "entries_weight (own_entries v) \<le> size v"
  by (cases "is_object v")
     (auto simp: less_imp_le own_entries_weight elim: is_object.elims simp del: jsval.size)

text \<open>
  \<open>traverse_keys\<close> is the loop over the properties of the node \<open>n\<close>,
  \<open>traverse_children\<close> the loop over the elements of an array-valued property. The
  callback works on a state \<open>s\<close> (the variable of the enclosing function it updates,
  a counter or the list of issues) and may throw, which ends the walk.
\<close>

function traverseAST :: "(visit \<Rightarrow> 's \<Rightarrow> js_error + 's) \<Rightarrow> visit \<Rightarrow> 's \<Rightarrow> js_error + 's"
  and traverse_keys :: "(visit \<Rightarrow> 's \<Rightarrow> js_error + 's) \<Rightarrow> jsval \<Rightarrow> (string \<times> jsval) list \<Rightarrow> 's \<Rightarrow> js_error + 's"
  and traverse_children :: "(visit \<Rightarrow> 's \<Rightarrow> js_error + 's) \<Rightarrow> jsval \<Rightarrow> string \<Rightarrow> nat \<Rightarrow> jsval list \<Rightarrow> 's \<Rightarrow> js_error + 's"
where
  "traverseAST callback v s =
     (if \<not> is_object (node v) then Inr s
      else (case callback v s of
              Inl e \<Rightarrow> Inl e
            | Inr s' \<Rightarrow> traverse_keys callback (node v) (own_entries (node v)) s'))"
| "traverse_keys callback n [] s = Inr s"
| "traverse_keys callback n ((k, x) # rest) s =
     (if k \<noteq> ''parent'' \<and> is_object x then
        (case x of
           JArr cs \<Rightarrow>
             (case traverse_children callback n k 0 cs s of
                Inl e \<Rightarrow> Inl e
              | Inr s' \<Rightarrow> traverse_keys callback n rest s')
         | _ \<Rightarrow>
             (if truthy (get_prop x ''type'') then
                (case traverseAST callback \<lparr>node = x, parent = n, key = k, index = None\<rparr> s of
                   Inl e \<Rightarrow> Inl e
                 | Inr s' \<Rightarrow> traverse_keys callback n rest s')
              else traverse_keys callback n rest s))
      else traverse_keys callback n rest s)"
| "traverse_children callback n k i [] s = Inr s"
| "traverse_children callback n k i (child # cs) s =
     (if is_object child then
        (case traverseAST callback \<lparr>node = child, parent = n, key = k, index = Some i\<rparr> s of
           Inl e \<Rightarrow> Inl e
         | Inr s' \<Rightarrow> traverse_children callback n k (Suc i) cs s')
      else traverse_children callback n k (Suc i) cs s)"
  by pat_completeness auto
termination
  by (relation "measure (\<lambda>x. case x of
      Inl (cb, v, s) \<Rightarrow> size (node v)
    | Inr (Inl (cb, n, es, s)) \<Rightarrow> entries_weight es
    | Inr (Inr (cb, n, k, i, cs, s)) \<Rightarrow> children_weight cs)")
   (simp_all add: own_entries_weight del: jsval.size,
    metis less_SucI trans_less_add1 children_weight_size)

declare traverseAST.simps [simp del]

text \<open>
  The visits of a walk, in order: what the callback is called on. A walk with a
  callback is the callback run over this list, stopping at the first throw
  (\<open>traverse_run\<close> below).
\<close>

function visits :: "visit \<Rightarrow> visit list"
  and visits_keys :: "jsval \<Rightarrow> (string \<times> jsval) list \<Rightarrow> visit list"
  and visits_children :: "jsval \<Rightarrow> string \<Rightarrow> nat \<Rightarrow> jsval list \<Rightarrow> visit list"
where
  "visits v =
     (if \<not> is_object (node v) then []
      else v # visits_keys (node v) (own_entries (node v)))"
| "visits_keys n [] = []"
| "visits_keys n ((k, x) # rest) =
     (if k \<noteq> ''parent'' \<and> is_object x then
        (case x of
           JArr cs \<Rightarrow> visits_children n k 0 cs @ visits_keys n rest
         | _ \<Rightarrow>
             (if truthy (get_prop x ''type'')
              then visits \<lparr>node = x, parent = n, key = k, index = None\<rparr> @ visits_keys n rest
              else visits_keys n rest))
      else visits_keys n rest)"
| "visits_children n k i [] = []"
| "visits_children n k i (child # cs) =
     (if is_object child
      then visits \<lparr>node = child, parent = n, key = k, index = Some i\<rparr> @ visits_children n k (Suc i) cs
      else visits_children n k (Suc i) cs)"
  by pat_completeness auto
termination
  by (relation "measure (\<lambda>x. case x of
      Inl v \<Rightarrow> size (node v)
    | Inr (Inl (n, es)) \<Rightarrow> entries_weight es
    | Inr (Inr (n, k, i, cs)) \<Rightarrow> children_weight cs)")
   (simp_all add: own_entries_weight del: jsval.size,
    metis less_SucI trans_less_add1 children_weight_size)

declare visits.simps [simp del]

text \<open>Calling a callback on each element of a list in turn, up to the first throw.\<close>

fun run :: "('a \<Rightarrow> 's \<Rightarrow> js_error + 's) \<Rightarrow> 'a list \<Rightarrow> 's \<Rightarrow> js_error + 's" where
  "run f [] s = Inr s"
| "run f (x # xs) s = (case f x s of Inl e \<Rightarrow> Inl e | Inr s' \<Rightarrow> run f xs s')"

lemma run_append:
  "run f (xs @ ys) s = (case run f xs s of Inl e \<Rightarrow> Inl e | Inr s' \<Rightarrow> run f ys s')"
  by (induction xs arbitrary: s) (auto split: sum.splits)

lemma traverse_run:
  "traverseAST cb v s = run cb (visits v) s"
  "traverse_keys cb n es s = run cb (visits_keys n es) s"
  "traverse_children cb n k i cs s = run cb (visits_children n k i cs) s"
proof (induction cb v s and cb n es s and cb n k i cs s
       rule: traverseAST_traverse_keys_traverse_children.induct)
  case (1 callback v s)
  then show ?case
    by (auto simp: traverseAST.simps [of callback v s] visits.simps [of v] split: sum.splits)
next
  case (2 callback n s)
  then show ?case by simp
next
  case (3 callback n k x rest s)
  then show ?case
    by (cases x) (auto simp: run_append split: sum.splits)
next
  case (4 callback n k i s)
  then show ?case by simp
next
  case (5 callback n k i child cs s)
  then show ?case by (auto simp: run_append split: sum.splits)
qed

section \<open>Findings, rules and metrics\<close>

text \<open>
  The issue objects the engine builds. \<open>issue_id\<close> and \<open>issue_type\<close> are the
  properties \<^verbatim>\<open>id\<close> and \<^verbatim>\<open>type\<close>, \<open>issue_file\<close> is \<^verbatim>\<open>file\<close>; \<open>line\<close> and
  \<open>column\<close> hold whatever value the node's \<^verbatim>\<open>loc.start\<close> holds. A rule object is either one of the engine's
  own rules (with \<^verbatim>\<open>enabled\<close> and maybe \<^verbatim>\<open>threshold\<close>) or written out in place
  (maybe with \<^verbatim>\<open>documentation\<close>); a property the object does not have is \<open>None\<close>.
\<close>

record location =
  path :: string
  line :: jsval
  column :: jsval

record rule =
  rule_id :: string
  rule_name :: string
  category :: string
  documentation :: "string option"
  enabled :: "bool option"
  threshold :: "int option"

record suggestion =
  fix_text :: string
  confidence :: int

record metadata =
  cwe :: "string list"

record issue =
  issue_id :: string
  issue_type :: string
  severity :: string
  title :: string
  description :: string
  issue_file :: location
  rule :: rule
  suggestion :: "suggestion option"
  metadata :: "metadata option"

record rules =
  complexity_rule :: rule
  security_rule :: rule
  performance_rule :: rule
  bugs_rule :: rule
  style_rule :: rule

record metrics =
  complexity :: int
  lines :: nat
  n_functions :: int
  n_classes :: int

record analysis =
  issues :: "issue list"
  metrics :: metrics

text \<open>\<^verbatim>\<open>this.rules\<close> as the constructor sets it.\<close>

definition engine_rules :: rules where
  "engine_rules =
     \<lparr>complexity_rule =
        \<lparr>rule_id = ''complexity'', rule_name = ''Cyclomatic Complexity'',
         category = ''maintainability'', documentation = None,
         enabled = Some True, threshold = Some 10\<rparr>,
      security_rule =
        \<lparr>rule_id = ''security'', rule_name = ''Security Vulnerabilities'',
         category = ''security'', documentation = None,
         enabled = Some True, threshold = None\<rparr>,
      performance_rule =
        \<lparr>rule_id = ''performance'', rule_name = ''Performance Issues'',
         category = ''performance'', documentation = None,
         enabled = Some True, threshold = None\<rparr>,
      bugs_rule =
        \<lparr>rule_id = ''bugs'', rule_name = ''Potential Bugs'',
         category = ''bug'', documentation = None,
         enabled = Some True, threshold = None\<rparr>,
      style_rule =
        \<lparr>rule_id = ''style'', rule_name = ''Code Style'',
         category = ''style'', documentation = None,
         enabled = Some False, threshold = None\<rparr>\<rparr>"

text \<open>A rule object written out in place: \<^verbatim>\<open>{ id, name, category }\<close>.\<close>

definition inline_rule :: "string \<Rightarrow> string \<Rightarrow> string \<Rightarrow> rule" where
  "inline_rule i n c =
     \<lparr>rule_id = i, rule_name = n, category = c, documentation = None,
      enabled = None, threshold = None\<rparr>"

subsection \<open>Sequencing computations that may throw\<close>

definition and_then :: "(js_error + 'a) \<Rightarrow> ('a \<Rightarrow> js_error + 'b) \<Rightarrow> js_error + 'b" where
  "and_then m f = (case m of Inl e \<Rightarrow> Inl e | Inr x \<Rightarrow> f x)"

text \<open>\<^verbatim>\<open>x.loc.start.line\<close> and \<^verbatim>\<open>x.loc.start.column\<close>, for \<open>x\<close> an object.\<close>

definition start_line :: "jsval \<Rightarrow> js_error + jsval" where
  "start_line x =
     and_then (read_prop x ''loc'') (\<lambda>loc.
     and_then (read_prop loc ''start'') (\<lambda>start.
     read_prop start ''line''))"

definition start_column :: "jsval \<Rightarrow> js_error + jsval" where
  "start_column x =
     and_then (read_prop x ''loc'') (\<lambda>loc.
     and_then (read_prop loc ''start'') (\<lambda>start.
     read_prop start ''column''))"

text \<open>The root of a walk: \<^verbatim>\<open>traverseAST(ast, callback)\<close>, the parent defaulting to null.\<close>

definition root :: "jsval \<Rightarrow> visit" where
  "root ast = \<lparr>node = ast, parent = JNull, key = [], index = None\<rparr>"

section \<open>Metrics\<close>

text \<open>The node kinds \<^verbatim>\<open>calculateComplexity\<close> counts in the first group of its switch.\<close>

definition branching_types :: "string list" where
  "branching_types =
     [''IfStatement'', ''ConditionalExpression'', ''SwitchCase'', ''ForStatement'',
      ''ForInStatement'', ''ForOfStatement'', ''WhileStatement'', ''DoWhileStatement'',
      ''CatchClause'']"

definition complexity_callback :: "visit \<Rightarrow> int \<Rightarrow> js_error + int" where
  "complexity_callback v c =
     (let n = node v in
      if \<exists>t \<in> set branching_types. has_type n t then Inr (c + 1)
      else if has_type n ''LogicalExpression'' then
        (if get_prop n ''operator'' = JStr ''&&'' \<or> get_prop n ''operator'' = JStr ''||''
         then Inr (c + 1) else Inr c)
      else Inr c)"

definition calculateComplexity :: "jsval \<Rightarrow> js_error + int" where
  "calculateComplexity ast = traverseAST complexity_callback (root ast) 1"

definition functions_callback :: "visit \<Rightarrow> int \<Rightarrow> js_error + int" where
  "functions_callback v count =
     (let n = node v in
      if has_type n ''FunctionDeclaration'' \<or> has_type n ''FunctionExpression''
         \<or> has_type n ''ArrowFunctionExpression''
      then Inr (count + 1) else Inr count)"

definition countFunctions :: "jsval \<Rightarrow> js_error + int" where
  "countFunctions ast = traverseAST functions_callback (root ast) 0"

definition classes_callback :: "visit \<Rightarrow> int \<Rightarrow> js_error + int" where
  "classes_callback v count =
     (if has_type (node v) ''ClassDeclaration'' then Inr (count + 1) else Inr count)"

definition countClasses :: "jsval \<Rightarrow> js_error + int" where
  "countClasses ast = traverseAST classes_callback (root ast) 0"

text \<open>
  \<^verbatim>\<open>findNestedLoops(node, depth = 0)\<close>: its own descent, with the walker's choice of
  children. Both call sites pass an object.
\<close>

definition is_counted_loop :: "jsval \<Rightarrow> bool" where
  "is_counted_loop n =
     (has_type n ''ForStatement'' \<or> has_type n ''WhileStatement''
      \<or> has_type n ''DoWhileStatement'')"

function findNestedLoops :: "jsval \<Rightarrow> int \<Rightarrow> int"
  and nested_keys :: "(string \<times> jsval) list \<Rightarrow> int \<Rightarrow> int \<Rightarrow> int"
  and nested_children :: "jsval list \<Rightarrow> int \<Rightarrow> int \<Rightarrow> int"
where
  "findNestedLoops n depth =
     (if is_counted_loop n
      then nested_keys (own_entries n) (depth + 1) (max depth (depth + 1))
      else nested_keys (own_entries n) depth depth)"
| "nested_keys [] depth maxDepth = maxDepth"
| "nested_keys ((k, x) # rest) depth maxDepth =
     (if k \<noteq> ''parent'' \<and> is_object x then
        (case x of
           JArr cs \<Rightarrow> nested_keys rest depth (nested_children cs depth maxDepth)
         | _ \<Rightarrow>
             (if truthy (get_prop x ''type'')
              then nested_keys rest depth (max maxDepth (findNestedLoops x depth))
              else nested_keys rest depth maxDepth))
      else nested_keys rest depth maxDepth)"
| "nested_children [] depth maxDepth = maxDepth"
| "nested_children (child # cs) depth maxDepth =
     (if is_object child
      then nested_children cs depth (max maxDepth (findNestedLoops child depth))
      else nested_children cs depth maxDepth)"
  by pat_completeness auto
termination
  by (relation "measure (\<lambda>x. case x of
      Inl (n, d) \<Rightarrow> 2 * size n + 1
    | Inr (Inl (es, d, m)) \<Rightarrow> 2 * entries_weight es
    | Inr (Inr (cs, d, m)) \<Rightarrow> 2 * children_weight cs)")
   (auto simp add: own_entries_weight_le le_imp_less_Suc less_SucI trans_less_add1 children_weight_size
      simp del: jsval.size)

declare findNestedLoops.simps [simp del]

section \<open>The analyzers\<close>

text \<open>\<^verbatim>\<open>issues.push({ ... })\<close>, where building the object may throw.\<close>

definition push :: "issue list \<Rightarrow> (js_error + issue) \<Rightarrow> js_error + issue list" where
  "push acc made = and_then made (\<lambda>i. Inr (acc @ [i]))"

subsection \<open>Complexity\<close>

text \<open>
  \<^verbatim>\<open>complexity > this.rules.complexity.threshold\<close>; against a missing threshold
  (\<^verbatim>\<open>undefined\<close>) the comparison is false.
\<close>

fun exceeds :: "int \<Rightarrow> int option \<Rightarrow> bool" where
  "exceeds c (Some t) = (c > t)"
| "exceeds c None = False"

definition complexity_issue :: "rules \<Rightarrow> string \<Rightarrow> int \<Rightarrow> int \<Rightarrow> issue" where
  "complexity_issue rs filePath now c =
     \<lparr>issue_id = ''complexity-'' @ filePath @ ''-'' @ show_int now,
      issue_type = ''complexity'',
      severity = (if c > 20 then ''high'' else ''medium''),
      title = ''High Cyclomatic Complexity ('' @ show_int c @ '')'',
      description =
        ''This file has a cyclomatic complexity of '' @ show_int c
        @ '', which exceeds the recommended threshold of ''
        @ (case threshold (complexity_rule rs) of
             Some t \<Rightarrow> show_int t | None \<Rightarrow> ''undefined'')
        @ ''.'',
      issue_file = \<lparr>path = filePath, line = JNum 1, column = JNum 1\<rparr>,
      rule = complexity_rule rs,
      suggestion = Some
        \<lparr>fix_text = ''Consider breaking down complex functions into smaller, more manageable pieces.'',
         confidence = 80\<rparr>,
      metadata = None\<rparr>"

text \<open>\<open>now\<close> is the value of \<^verbatim>\<open>Date.now()\<close> when the issue is built.\<close>

definition analyzeComplexity :: "rules \<Rightarrow> int \<Rightarrow> jsval \<Rightarrow> string \<Rightarrow> js_error + issue list" where
  "analyzeComplexity rs now ast filePath =
     and_then (calculateComplexity ast) (\<lambda>c.
       if exceeds c (threshold (complexity_rule rs))
       then Inr [complexity_issue rs filePath now c]
       else Inr [])"

subsection \<open>Security\<close>

definition is_eval_call :: "jsval \<Rightarrow> bool" where
  "is_eval_call n =
     (has_type n ''CallExpression'' \<and> truthy (get_prop n ''callee'')
      \<and> get_prop (get_prop n ''callee'') ''name'' = JStr ''eval'')"

definition is_innerHTML :: "jsval \<Rightarrow> bool" where
  "is_innerHTML n =
     (has_type n ''MemberExpression'' \<and> truthy (get_prop n ''property'')
      \<and> get_prop (get_prop n ''property'') ''name'' = JStr ''innerHTML'')"

definition eval_issue :: "string \<Rightarrow> jsval \<Rightarrow> js_error + issue" where
  "eval_issue filePath n =
     and_then (start_line n) (\<lambda>l.
     and_then (start_column n) (\<lambda>c.
     Inr \<lparr>issue_id = ''security-eval-'' @ filePath @ ''-'' @ js_to_string l,
          issue_type = ''security'',
          severity = ''critical'',
          title = ''Dangerous eval() usage'',
          description = ''Using eval() can lead to code injection vulnerabilities.'',
          issue_file = \<lparr>path = filePath, line = l, column = c\<rparr>,
          rule = (inline_rule ''no-eval'' ''No eval()'' ''security'')
            \<lparr>documentation := Some ''https://eslint.org/docs/rules/no-eval''\<rparr>,
          suggestion = None,
          metadata = Some \<lparr>cwe = [''CWE-95'']\<rparr>\<rparr>))"

definition innerHTML_issue :: "string \<Rightarrow> jsval \<Rightarrow> js_error + issue" where
  "innerHTML_issue filePath n =
     and_then (start_line n) (\<lambda>l.
     and_then (start_column n) (\<lambda>c.
     Inr \<lparr>issue_id = ''security-innerHTML-'' @ filePath @ ''-'' @ js_to_string l,
          issue_type = ''security'',
          severity = ''high'',
          title = ''Potential XSS vulnerability'',
          description = ''Direct innerHTML manipulation can lead to XSS attacks.'',
          issue_file = \<lparr>path = filePath, line = l, column = c\<rparr>,
          rule = inline_rule ''no-innerHTML'' ''No innerHTML'' ''security'',
          suggestion = None,
          metadata = Some \<lparr>cwe = [''CWE-79'']\<rparr>\<rparr>))"

definition security_callback :: "string \<Rightarrow> visit \<Rightarrow> issue list \<Rightarrow> js_error + issue list" where
  "security_callback filePath v issues0 =
     and_then
       (if is_eval_call (node v) then push issues0 (eval_issue filePath (node v))
        else Inr issues0)
       (\<lambda>issues1.
          if is_innerHTML (node v) then push issues1 (innerHTML_issue filePath (node v))
          else Inr issues1)"

definition analyzeSecurity :: "jsval \<Rightarrow> string \<Rightarrow> string \<Rightarrow> js_error + issue list" where
  "analyzeSecurity ast filePath language =
     (if language = ''javascript'' \<or> language = ''typescript''
      then traverseAST (security_callback filePath) (root ast) []
      else Inr [])"

subsection \<open>Performance\<close>

definition nested_loops_issue :: "string \<Rightarrow> jsval \<Rightarrow> int \<Rightarrow> js_error + issue" where
  "nested_loops_issue filePath n nestedLoops =
     and_then (start_line n) (\<lambda>l.
     and_then (start_column n) (\<lambda>c.
     Inr \<lparr>issue_id = ''performance-nested-loops-'' @ filePath @ ''-'' @ js_to_string l,
          issue_type = ''performance'',
          severity = ''medium'',
          title = ''Deeply nested loops ('' @ show_int nestedLoops @ '' levels)'',
          description = ''Deeply nested loops can cause performance issues.'',
          issue_file = \<lparr>path = filePath, line = l, column = c\<rparr>,
          rule = inline_rule ''max-nested-loops'' ''Maximum nested loops'' ''performance'',
          suggestion = None,
          metadata = None\<rparr>))"

definition large_array_issue :: "string \<Rightarrow> jsval \<Rightarrow> jsval \<Rightarrow> js_error + issue" where
  "large_array_issue filePath n len =
     and_then (start_line n) (\<lambda>l.
     and_then (start_column n) (\<lambda>c.
     Inr \<lparr>issue_id = ''performance-large-array-'' @ filePath @ ''-'' @ js_to_string l,
          issue_type = ''performance'',
          severity = ''low'',
          title = ''Large array literal'',
          description = ''Array with '' @ js_to_string len @ '' elements may impact performance.'',
          issue_file = \<lparr>path = filePath, line = l, column = c\<rparr>,
          rule = inline_rule ''max-array-size'' ''Maximum array size'' ''performance'',
          suggestion = None,
          metadata = None\<rparr>))"

definition is_flagged_loop :: "jsval \<Rightarrow> bool" where
  "is_flagged_loop n = (has_type n ''ForStatement'' \<or> has_type n ''WhileStatement'')"

definition performance_callback :: "string \<Rightarrow> visit \<Rightarrow> issue list \<Rightarrow> js_error + issue list" where
  "performance_callback filePath v issues0 =
     and_then
       (if is_flagged_loop (node v) then
          (let nestedLoops = findNestedLoops (node v) 0 in
           if nestedLoops > 2
           then push issues0 (nested_loops_issue filePath (node v) nestedLoops)
           else Inr issues0)
        else Inr issues0)
       (\<lambda>issues1.
          if has_type (node v) ''ArrayExpression'' then
            and_then (read_prop (get_prop (node v) ''elements'') ''length'') (\<lambda>len.
              if js_gt len 1000
              then push issues1 (large_array_issue filePath (node v) len)
              else Inr issues1)
          else Inr issues1)"

definition analyzePerformance :: "jsval \<Rightarrow> string \<Rightarrow> string \<Rightarrow> js_error + issue list" where
  "analyzePerformance ast filePath language =
     (if language = ''javascript'' \<or> language = ''typescript''
      then traverseAST (performance_callback filePath) (root ast) []
      else Inr [])"

subsection \<open>Bugs\<close>

text \<open>
  \<^verbatim>\<open>parent.body.indexOf(node)\<close> for an array \<^verbatim>\<open>parent.body\<close>: the node is an element
  of that array exactly when the walker reached it through the property \<^verbatim>\<open>body\<close> at
  an array index, and that index is then the answer; otherwise the answer is -1.
\<close>

definition index_in_body :: "visit \<Rightarrow> int" where
  "index_in_body v =
     (if key v = ''body'' then (case index v of Some i \<Rightarrow> int i | None \<Rightarrow> - 1) else - 1)"

text \<open>\<^verbatim>\<open>xs[i]\<close> for an array: \<^verbatim>\<open>undefined\<close> outside the array.\<close>

definition nth_js :: "jsval list \<Rightarrow> int \<Rightarrow> jsval" where
  "nth_js xs i = (if 0 \<le> i \<and> i < int (length xs) then xs ! nat i else JUndefined)"

text \<open>\<^verbatim>\<open>s.indexOf(needle)\<close> for strings.\<close>

fun str_indexOf :: "string \<Rightarrow> string \<Rightarrow> int" where
  "str_indexOf needle [] = (if needle = [] then 0 else - 1)"
| "str_indexOf needle (c # cs) =
     (if take (length needle) (c # cs) = needle then 0
      else (let r = str_indexOf needle cs in if r < 0 then - 1 else r + 1))"

definition unreachable_issue :: "string \<Rightarrow> jsval \<Rightarrow> jsval \<Rightarrow> js_error + issue" where
  "unreachable_issue filePath n next =
     and_then (start_line n) (\<lambda>l.
     and_then (start_line next) (\<lambda>nl.
     and_then (start_column next) (\<lambda>nc.
     Inr \<lparr>issue_id = ''bug-unreachable-'' @ filePath @ ''-'' @ js_to_string l,
          issue_type = ''bug'',
          severity = ''medium'',
          title = ''Unreachable code after return'',
          description = ''Code after return statement will never be executed.'',
          issue_file = \<lparr>path = filePath, line = nl, column = nc\<rparr>,
          rule = inline_rule ''no-unreachable'' ''No unreachable code'' ''bug'',
          suggestion = None,
          metadata = None\<rparr>)))"

definition assignment_issue :: "string \<Rightarrow> jsval \<Rightarrow> js_error + issue" where
  "assignment_issue filePath n =
     and_then (start_line n) (\<lambda>l.
     and_then (start_line (get_prop n ''test'')) (\<lambda>tl.
     and_then (start_column (get_prop n ''test'')) (\<lambda>tc.
     Inr \<lparr>issue_id = ''bug-assignment-condition-'' @ filePath @ ''-'' @ js_to_string l,
          issue_type = ''bug'',
          severity = ''high'',
          title = ''Assignment in condition'',
          description =
            ''Assignment in condition is likely a mistake. Did you mean to use == or ===?'',
          issue_file = \<lparr>path = filePath, line = tl, column = tc\<rparr>,
          rule = inline_rule ''no-assignment-in-condition'' ''No assignment in condition'' ''bug'',
          suggestion = None,
          metadata = None\<rparr>)))"

text \<open>
  The first check of the callback. \<^verbatim>\<open>parent.body\<close> is an array in every tree a
  parser builds; the other cases are what JavaScript does with the same expressions
  on a string (\<^verbatim>\<open>indexOf\<close> searches for the text of the node, \<^verbatim>\<open>body[i]\<close> is a
  one-character string) and on anything else (there is no \<^verbatim>\<open>indexOf\<close> to call).
\<close>

definition unreachable_check :: "string \<Rightarrow> visit \<Rightarrow> issue list \<Rightarrow> js_error + issue list" where
  "unreachable_check filePath v issues0 =
     (if has_type (node v) ''ReturnStatement'' \<and> truthy (parent v)
         \<and> has_type (parent v) ''BlockStatement''
      then
        (case get_prop (parent v) ''body'' of
           JArr stmts \<Rightarrow>
             (let i = index_in_body v in
              if i < int (length stmts) - 1
              then push issues0 (unreachable_issue filePath (node v) (nth_js stmts (i + 1)))
              else Inr issues0)
         | JStr s \<Rightarrow>
             (let i = str_indexOf (js_to_string (node v)) s in
              if i < int (length s) - 1
              then push issues0 (unreachable_issue filePath (node v) (JStr [s ! nat (i + 1)]))
              else Inr issues0)
         | body \<Rightarrow>
             and_then (read_prop body ''indexOf'') (\<lambda>f.
               Inl (TypeError ''parent.body.indexOf is not a function'')))
      else Inr issues0)"

definition is_assignment_condition :: "jsval \<Rightarrow> bool" where
  "is_assignment_condition n =
     ((has_type n ''IfStatement'' \<or> has_type n ''WhileStatement'')
      \<and> truthy (get_prop n ''test'')
      \<and> get_prop (get_prop n ''test'') ''type'' = JStr ''AssignmentExpression'')"

definition bugs_callback :: "string \<Rightarrow> visit \<Rightarrow> issue list \<Rightarrow> js_error + issue list" where
  "bugs_callback filePath v issues0 =
     and_then (unreachable_check filePath v issues0) (\<lambda>issues1.
       if is_assignment_condition (node v)
       then push issues1 (assignment_issue filePath (node v))
       else Inr issues1)"

definition analyzeBugs :: "jsval \<Rightarrow> string \<Rightarrow> string \<Rightarrow> js_error + issue list" where
  "analyzeBugs ast filePath language =
     (if language = ''javascript'' \<or> language = ''typescript''
      then traverseAST (bugs_callback filePath) (root ast) []
      else Inr [])"

section \<open>Analysing one file\<close>

text \<open>
  The parser front-ends are libraries (Esprima, the TypeScript-ESLint parser): each is
  a function from the source text to a tree, or to the error it throws.
\<close>

record parsers =
  esprima_parseScript :: "string \<Rightarrow> js_error + jsval"
  typescriptParse :: "string \<Rightarrow> js_error + jsval"

definition parsePython :: "string \<Rightarrow> jsval" where
  "parsePython content =
     JObj [(''type'', JStr ''Module''),
           (''body'', JArr []),
           (''loc'', JObj [(''start'', JObj [(''line'', JNum 1), (''column'', JNum 0)]),
                           (''end'', JObj [(''line'', JNum 1), (''column'', JNum 0)])])]"

text \<open>The \<^verbatim>\<open>catch\<close> of \<^verbatim>\<open>parseFile\<close> logs and throws the same error again.\<close>

definition parseFile :: "parsers \<Rightarrow> string \<Rightarrow> string \<Rightarrow> js_error + jsval" where
  "parseFile ps content language =
     (if language = ''javascript'' then esprima_parseScript ps content
      else if language = ''typescript'' then typescriptParse ps content
      else if language = ''python'' then Inr (parsePython content)
      else Inr JNull)"

text \<open>\<^verbatim>\<open>content.split(sep)\<close> for a one-character separator.\<close>

fun split_on :: "char \<Rightarrow> string \<Rightarrow> string list" where
  "split_on sep [] = [[]]"
| "split_on sep (c # cs) =
     (if c = sep then [] # split_on sep cs
      else (case split_on sep cs of
              [] \<Rightarrow> [[c]]
            | piece # pieces \<Rightarrow> (c # piece) # pieces))"

definition parse_error_issue :: "string \<Rightarrow> int \<Rightarrow> js_error \<Rightarrow> issue" where
  "parse_error_issue filePath now error =
     \<lparr>issue_id = ''parse-error-'' @ show_int now,
      issue_type = ''bug'',
      severity = ''high'',
      title = ''Parse Error'',
      description = ''Failed to parse file: '' @ message error,
      issue_file = \<lparr>path = filePath, line = JNum 1, column = JNum 1\<rparr>,
      rule = inline_rule ''parse-error'' ''Parse Error'' ''syntax'',
      suggestion = None,
      metadata = None\<rparr>"

text \<open>
  The two values \<^verbatim>\<open>Date.now()\<close> can take during one call: when the complexity
  issue is built, and in the \<^verbatim>\<open>catch\<close>.
\<close>

record clock =
  now_complexity :: int
  now_catch :: int

text \<open>
  \<^verbatim>\<open>analyzeFile\<close>: one \<^verbatim>\<open>try\<close> around parsing, the four analyzers and the three
  metrics. \<open>caught\<close> is its \<^verbatim>\<open>catch\<close>, entered with the issues pushed and the
  metrics stored so far.
\<close>

definition caught :: "string \<Rightarrow> clock \<Rightarrow> issue list \<Rightarrow> metrics \<Rightarrow> js_error \<Rightarrow> analysis" where
  "caught filePath clk issues0 m error =
     \<lparr>issues = issues0 @ [parse_error_issue filePath (now_catch clk) error], metrics = m\<rparr>"

definition analyzeFile ::
  "rules \<Rightarrow> parsers \<Rightarrow> clock \<Rightarrow> string \<Rightarrow> string \<Rightarrow> string \<Rightarrow> analysis"
where
  "analyzeFile rs ps clk filePath content language =
     (let m0 = \<lparr>complexity = 0, lines = length (split_on CHR 0x0A content),
                n_functions = 0, n_classes = 0\<rparr>
      in case parseFile ps content language of
           Inl e \<Rightarrow> caught filePath clk [] m0 e
         | Inr ast \<Rightarrow>
             if \<not> truthy ast then \<lparr>issues = [], metrics = m0\<rparr>
             else
               (case analyzeComplexity rs (now_complexity clk) ast filePath of
                  Inl e \<Rightarrow> caught filePath clk [] m0 e
                | Inr i1 \<Rightarrow>
               (case analyzeSecurity ast filePath language of
                  Inl e \<Rightarrow> caught filePath clk i1 m0 e
                | Inr i2 \<Rightarrow>
               (case analyzePerformance ast filePath language of
                  Inl e \<Rightarrow> caught filePath clk (i1 @ i2) m0 e
                | Inr i3 \<Rightarrow>
               (case analyzeBugs ast filePath language of
                  Inl e \<Rightarrow> caught filePath clk (i1 @ i2 @ i3) m0 e
                | Inr i4 \<Rightarrow>
               (case calculateComplexity ast of
                  Inl e \<Rightarrow> caught filePath clk (i1 @ i2 @ i3 @ i4) m0 e
                | Inr c \<Rightarrow>
               (case countFunctions ast of
                  Inl e \<Rightarrow> caught filePath clk (i1 @ i2 @ i3 @ i4) (m0\<lparr>complexity := c\<rparr>) e
                | Inr f \<Rightarrow>
               (case countClasses ast of
                  Inl e \<Rightarrow>
                    caught filePath clk (i1 @ i2 @ i3 @ i4)
                      (m0\<lparr>complexity := c, n_functions := f\<rparr>) e
                | Inr k \<Rightarrow>
                    \<lparr>issues = i1 @ i2 @ i3 @ i4,
                     metrics = m0\<lparr>complexity := c, n_functions := f, n_classes := k\<rparr>\<rparr>))))))))"



section \<open>Resolving the language of a file\<close>

record language_config =
  extensions :: "string list"
  parser_name :: string
  analyzer_name :: string

text \<open>
  \<^verbatim>\<open>this.supportedLanguages\<close>, in the order of \<^verbatim>\<open>Object.entries\<close>; \<open>parser_name\<close>
  and \<open>analyzer_name\<close> are the properties \<^verbatim>\<open>parser\<close> and \<^verbatim>\<open>analyzer\<close>.
\<close>

definition supportedLanguages :: "(string \<times> language_config) list" where
  "supportedLanguages =
     [(''javascript'',
       \<lparr>extensions = [''.js'', ''.jsx'', ''.mjs''], parser_name = ''esprima'',
        analyzer_name = ''javascript''\<rparr>),
      (''typescript'',
       \<lparr>extensions = [''.ts'', ''.tsx''], parser_name = ''typescript'',
        analyzer_name = ''typescript''\<rparr>),
      (''python'',
       \<lparr>extensions = [''.py''], parser_name = ''python'', analyzer_name = ''python''\<rparr>),
      (''java'',
       \<lparr>extensions = [''.java''], parser_name = ''java'', analyzer_name = ''java''\<rparr>),
      (''go'',
       \<lparr>extensions = [''.go''], parser_name = ''go'', analyzer_name = ''go''\<rparr>),
      (''rust'',
       \<lparr>extensions = [''.rs''], parser_name = ''rust'', analyzer_name = ''rust''\<rparr>),
      (''cpp'',
       \<lparr>extensions = [''.cpp'', ''.cc'', ''.cxx'', ''.hpp'', ''.h''], parser_name = ''cpp'',
        analyzer_name = ''cpp''\<rparr>)]"

text \<open>\<^verbatim>\<open>toLowerCase\<close>, on the letters A to Z; every other byte is kept.\<close>

definition to_lower_char :: "char \<Rightarrow> char" where
  "to_lower_char c =
     (let n = (of_char c :: nat) in if 65 \<le> n \<and> n \<le> 90 then char_of (n + 32) else c)"

definition toLowerCase :: "string \<Rightarrow> string" where
  "toLowerCase s = map to_lower_char s"

text \<open>
  \<^verbatim>\<open>getLanguageFromFile\<close>. \<open>extname\<close> is Node's \<^verbatim>\<open>path.extname\<close>, a library
  function: the extension of the path, from its last dot.
\<close>

definition getLanguageFromFile :: "(string \<Rightarrow> string) \<Rightarrow> string \<Rightarrow> string option" where
  "getLanguageFromFile extname filePath =
     (let ext = toLowerCase (extname filePath) in
      case find (\<lambda>(language, config). ext \<in> set (extensions config)) supportedLanguages of
        Some (language, config) \<Rightarrow> Some language
      | None \<Rightarrow> None)"

section \<open>Analysing a repository\<close>

record summary =
  totalFiles :: nat
  analyzedFiles :: nat
  totalIssues :: nat
  criticalIssues :: nat
  highIssues :: nat
  mediumIssues :: nat
  lowIssues :: nat
  totalLines :: nat

text \<open>
  An element of \<^verbatim>\<open>results.files\<close>; \<open>entry_path\<close>, \<open>entry_language\<close> and
  \<open>entry_metrics\<close> are its properties \<^verbatim>\<open>path\<close>, \<^verbatim>\<open>language\<close> and \<^verbatim>\<open>metrics\<close>.
\<close>

record file_entry =
  entry_path :: string
  entry_language :: string
  entry_metrics :: metrics
  issuesCount :: nat

text \<open>
  \<^verbatim>\<open>results\<close>; \<open>file_entries\<close> and \<open>all_issues\<close> are its properties \<^verbatim>\<open>files\<close> and
  \<^verbatim>\<open>issues\<close>.
\<close>

record repository_results =
  summary :: summary
  file_entries :: "file_entry list"
  all_issues :: "issue list"

text \<open>
  What \<^verbatim>\<open>analyzeRepository\<close> gets from outside: the list \<^verbatim>\<open>getSourceFiles\<close>
  resolves to, \<^verbatim>\<open>fs.readFile\<close> (which may throw), \<^verbatim>\<open>path.extname\<close>, and the clock
  readings during the analysis of each file. There is nothing else it reads: no flag,
  signal or status.
\<close>

record host =
  source_files :: "string list"
  readFile :: "string \<Rightarrow> js_error + string"
  extname :: "string \<Rightarrow> string"
  clock_at :: "string \<Rightarrow> clock"

text \<open>
  The body of \<^verbatim>\<open>analysis.issues.forEach\<close>. The counter is chosen by the name
  \<^verbatim>\<open>`${issue.severity}Issues`\<close>; the four severities below are the only ones the
  engine gives an issue.
\<close>

definition count_issue :: "summary \<Rightarrow> issue \<Rightarrow> summary" where
  "count_issue s i =
     (let s1 = s\<lparr>totalIssues := totalIssues s + 1\<rparr> in
      if severity i = ''critical'' then s1\<lparr>criticalIssues := criticalIssues s1 + 1\<rparr>
      else if severity i = ''high'' then s1\<lparr>highIssues := highIssues s1 + 1\<rparr>
      else if severity i = ''medium'' then s1\<lparr>mediumIssues := mediumIssues s1 + 1\<rparr>
      else if severity i = ''low'' then s1\<lparr>lowIssues := lowIssues s1 + 1\<rparr>
      else s1)"

text \<open>
  One round of the loop over the files: its \<^verbatim>\<open>try\<close> block, and its \<^verbatim>\<open>catch\<close>,
  which logs and goes on to the next file.
\<close>

definition process_file ::
  "host \<Rightarrow> rules \<Rightarrow> parsers \<Rightarrow> repository_results \<Rightarrow> string \<Rightarrow> repository_results"
where
  "process_file h rs ps results filePath =
     (case readFile h filePath of
        Inl error \<Rightarrow> results
      | Inr content \<Rightarrow>
          (case getLanguageFromFile (extname h) filePath of
             None \<Rightarrow> results
           | Some language \<Rightarrow>
               (let analysis = analyzeFile rs ps (clock_at h filePath) filePath content language;
                    s = summary results
                in \<lparr>summary =
                      foldl count_issue
                        (s\<lparr>analyzedFiles := analyzedFiles s + 1,
                           totalLines := totalLines s + lines (metrics analysis)\<rparr>)
                        (issues analysis),
                    file_entries = file_entries results @
                      [\<lparr>entry_path = filePath, entry_language = language,
                        entry_metrics = metrics analysis,
                        issuesCount = length (issues analysis)\<rparr>],
                    all_issues = all_issues results @ issues analysis\<rparr>)))"

definition analyzeRepository :: "host \<Rightarrow> rules \<Rightarrow> parsers \<Rightarrow> repository_results" where
  "analyzeRepository h rs ps =
     foldl (process_file h rs ps)
       \<lparr>summary =
          \<lparr>totalFiles = length (source_files h), analyzedFiles = 0, totalIssues = 0,
           criticalIssues = 0, highIssues = 0, mediumIssues = 0, lowIssues = 0,
           totalLines = 0\<rparr>,
        file_entries = [], all_issues = []\<rparr>
       (source_files h)"

section \<open>The analysis route's loop over the files\<close>

text \<open>
  The other place that analyses a repository file by file is \<^verbatim>\<open>startAnalysis\<close> in
  the analysis routes (\<^verbatim>\<open>src/unnamed/part_003\<close>), whose \<^verbatim>\<open>for (const file of
  sourceFiles)\<close> loop begins with \<^verbatim>\<open>if (analysis.status === 'cancelled') break;\<close>.
  The route \<^verbatim>\<open>PUT /:id/cancel\<close> is what stores that status.

  \<open>analysis_summary\<close> is \<^verbatim>\<open>analysis.results.summary\<close> of the \<^verbatim>\<open>Analysis\<close> model;
  \<open>found_total\<close>, \<open>found_critical\<close>, \<open>found_high\<close>, \<open>found_medium\<close> and
  \<open>found_low\<close> are its properties \<^verbatim>\<open>totalIssues\<close>, \<^verbatim>\<open>criticalIssues\<close>,
  \<^verbatim>\<open>highIssues\<close>, \<^verbatim>\<open>mediumIssues\<close> and \<^verbatim>\<open>lowIssues\<close>. \<open>analysis_doc\<close> holds what
  the loop writes of the document: \<^verbatim>\<open>results.issues\<close>, \<^verbatim>\<open>results.summary\<close>,
  \<^verbatim>\<open>scope.totalLines\<close> (not set before the loop) and the messages of the error entries pushed on \<^verbatim>\<open>logs\<close>.
  \<^verbatim>\<open>analysis.progress\<close>, a floating-point value nothing in the loop reads, is left
  out.
\<close>

record analysis_summary =
  found_total :: nat
  found_critical :: nat
  found_high :: nat
  found_medium :: nat
  found_low :: nat
  filesAnalyzed :: nat
  linesAnalyzed :: nat

record analysis_doc =
  doc_issues :: "issue list"
  doc_summary :: analysis_summary
  scope_totalLines :: "nat option"
  error_logs :: "string list"

text \<open>
  \<^verbatim>\<open>analysisSchema.methods.addIssue\<close> (\<^verbatim>\<open>src/server/models/Analysis.js\<close>): a severity
  that names no counter of the summary changes no counter but the total.
\<close>

definition addIssue :: "analysis_doc \<Rightarrow> issue \<Rightarrow> analysis_doc" where
  "addIssue d i =
     (let s = doc_summary d;
          s1 = (if severity i = ''critical'' then s\<lparr>found_critical := found_critical s + 1\<rparr>
                else if severity i = ''high'' then s\<lparr>found_high := found_high s + 1\<rparr>
                else if severity i = ''medium'' then s\<lparr>found_medium := found_medium s + 1\<rparr>
                else if severity i = ''low'' then s\<lparr>found_low := found_low s + 1\<rparr>
                else s)
      in d\<lparr>doc_issues := doc_issues d @ [i],
            doc_summary := s1\<lparr>found_total := found_total s1 + 1\<rparr>\<rparr>)"

text \<open>
  What the loop gets from outside. \<open>getFileContent\<close> is the GitHub service's call,
  giving the file's content or throwing. \<open>status_before i\<close> is the value the loop
  reads from \<^verbatim>\<open>analysis.status\<close> when it comes to the file at position \<open>i\<close> (from 0):
  a cancellation requested after \<open>k\<close> files have completed is a status that reads
  \<^verbatim>\<open>cancelled\<close> from position \<open>k\<close> on. \<open>save_at n\<close> is the error, if any, thrown by
  the \<^verbatim>\<open>analysis.save()\<close> made when \<open>n\<close> files have been processed.
\<close>

record route_host =
  getFileContent :: "string \<Rightarrow> js_error + string"
  route_extname :: "string \<Rightarrow> string"
  route_clock_at :: "string \<Rightarrow> clock"
  status_before :: "nat \<Rightarrow> string"
  save_at :: "nat \<Rightarrow> js_error option"

text \<open>The loop's state: the document and the locals \<^verbatim>\<open>totalLines\<close>, \<^verbatim>\<open>processedFiles\<close>.\<close>

record loop_state =
  doc :: analysis_doc
  lines_so_far :: nat
  processedFiles :: nat

definition log_error :: "string \<Rightarrow> js_error \<Rightarrow> loop_state \<Rightarrow> loop_state" where
  "log_error filePath error st =
     st\<lparr>doc := (doc st)\<lparr>error_logs := error_logs (doc st)
        @ [''Error analyzing file '' @ filePath @ '': '' @ message error]\<rparr>\<rparr>"

text \<open>
  The \<^verbatim>\<open>try\<close> block of one round and its \<^verbatim>\<open>catch\<close>. The files of
  \<^verbatim>\<open>sourceFiles\<close> were filtered to those with a language; were there none,
  \<^verbatim>\<open>analyzeFile\<close> would get \<^verbatim>\<open>null\<close>, which like the empty string equals none of
  the language names it compares with.
\<close>

definition analyze_source_file ::
  "route_host \<Rightarrow> rules \<Rightarrow> parsers \<Rightarrow> loop_state \<Rightarrow> string \<Rightarrow> loop_state"
where
  "analyze_source_file h rs ps st filePath =
     (case getFileContent h filePath of
        Inl error \<Rightarrow> log_error filePath error st
      | Inr content \<Rightarrow>
          (let language =
                 (case getLanguageFromFile (route_extname h) filePath of
                    Some l \<Rightarrow> l | None \<Rightarrow> []);
               fileAnalysis =
                 analyzeFile rs ps (route_clock_at h filePath) filePath content language;
               d1 = foldl addIssue (doc st) (issues fileAnalysis);
               totalLines1 = lines_so_far st + lines (metrics fileAnalysis);
               processed1 = processedFiles st + 1;
               st1 = \<lparr>doc = d1\<lparr>scope_totalLines := Some totalLines1,
                                doc_summary := (doc_summary d1)
                                  \<lparr>filesAnalyzed := processed1,
                                   linesAnalyzed := totalLines1\<rparr>\<rparr>,
                      lines_so_far = totalLines1,
                      processedFiles = processed1\<rparr>
           in if processed1 mod 10 = 0 then
                (case save_at h processed1 of
                   Some error \<Rightarrow> log_error filePath error st1
                 | None \<Rightarrow> st1)
              else st1))"

text \<open>The loop, from the file at position \<open>i\<close> on.\<close>

fun analyze_each_file ::
  "route_host \<Rightarrow> rules \<Rightarrow> parsers \<Rightarrow> nat \<Rightarrow> string list \<Rightarrow> loop_state \<Rightarrow> loop_state"
where
  "analyze_each_file h rs ps i [] st = st"
| "analyze_each_file h rs ps i (filePath # rest) st =
     (if status_before h i = ''cancelled'' then st
      else analyze_each_file h rs ps (Suc i) rest (analyze_source_file h rs ps st filePath))"

text \<open>The document and the locals as the loop finds them.\<close>

definition loop_start :: loop_state where
  "loop_start =
     \<lparr>doc = \<lparr>doc_issues = [],
              doc_summary = \<lparr>found_total = 0, found_critical = 0, found_high = 0,
                             found_medium = 0, found_low = 0, filesAnalyzed = 0,
                             linesAnalyzed = 0\<rparr>,
              scope_totalLines = None,
              error_logs = []\<rparr>,
      lines_so_far = 0,
      processedFiles = 0\<rparr>"

section \<open>Words of the specification\<close>

text \<open>The nodes of a tree: what the walker visits, in its order.\<close>

definition tree_nodes :: "jsval \<Rightarrow> jsval list" where
  "tree_nodes ast = map node (visits (root ast))"

text \<open>
  A node that adds to the cyclomatic complexity, in the specification's words: an
  \<^verbatim>\<open>if\<close>, a ternary, a \<^verbatim>\<open>switch\<close> case, a loop of any kind, a \<^verbatim>\<open>catch\<close> clause,
  or a short-circuit logical operator.
\<close>

definition is_decision_point :: "jsval \<Rightarrow> bool" where
  "is_decision_point n =
     (has_type n ''IfStatement'' \<or> has_type n ''ConditionalExpression''
      \<or> has_type n ''SwitchCase''
      \<or> has_type n ''ForStatement'' \<or> has_type n ''ForInStatement''
      \<or> has_type n ''ForOfStatement'' \<or> has_type n ''WhileStatement''
      \<or> has_type n ''DoWhileStatement''
      \<or> has_type n ''CatchClause''
      \<or> (has_type n ''LogicalExpression''
          \<and> (get_prop n ''operator'' = JStr ''&&'' \<or> get_prop n ''operator'' = JStr ''||'')))"

section \<open>Example inputs\<close>

text \<open>Front-ends that reject the text they are given.\<close>

definition failing_parsers :: parsers where
  "failing_parsers =
     \<lparr>esprima_parseScript = (\<lambda>content. Inl (Error ''Line 1: Unexpected end of input'')),
      typescriptParse = (\<lambda>content. Inl (Error ''Expression expected.''))\<rparr>"

text \<open>Pieces of trees, shaped as Esprima builds them with \<^verbatim>\<open>loc: true\<close>.\<close>

definition loc_at :: "int \<Rightarrow> int \<Rightarrow> jsval" where
  "loc_at l c =
     JObj [(''start'', JObj [(''line'', JNum l), (''column'', JNum c)]),
           (''end'', JObj [(''line'', JNum l), (''column'', JNum (c + 1))])]"

definition ident_node :: "string \<Rightarrow> int \<Rightarrow> int \<Rightarrow> jsval" where
  "ident_node name l c =
     JObj [(''type'', JStr ''Identifier''), (''name'', JStr name), (''loc'', loc_at l c)]"

definition block :: "jsval list \<Rightarrow> int \<Rightarrow> int \<Rightarrow> jsval" where
  "block stmts l c =
     JObj [(''type'', JStr ''BlockStatement''), (''body'', JArr stmts), (''loc'', loc_at l c)]"

definition program :: "jsval list \<Rightarrow> jsval" where
  "program stmts =
     JObj [(''type'', JStr ''Program''), (''body'', JArr stmts),
           (''sourceType'', JStr ''script''), (''loc'', loc_at 1 0)]"

definition if_statement :: "jsval \<Rightarrow> jsval \<Rightarrow> int \<Rightarrow> jsval" where
  "if_statement test consequent l =
     JObj [(''type'', JStr ''IfStatement''), (''test'', test), (''consequent'', consequent),
           (''alternate'', JNull), (''loc'', loc_at l 0)]"

text \<open>Twelve statements \<^verbatim>\<open>if (a) {}\<close>, one per line.\<close>

definition twelve_ifs :: jsval where
  "twelve_ifs =
     program (map (\<lambda>l. if_statement (ident_node ''a'' l 4) (block [] l 7) l) [1..12])"

definition call_eval :: "int \<Rightarrow> int \<Rightarrow> jsval" where
  "call_eval l c =
     JObj [(''type'', JStr ''CallExpression''),
           (''callee'', ident_node ''eval'' l c),
           (''arguments'', JArr [ident_node ''x'' l (c + 5)]),
           (''loc'', loc_at l c)]"

definition expression_statement :: "jsval \<Rightarrow> int \<Rightarrow> int \<Rightarrow> jsval" where
  "expression_statement e l c =
     JObj [(''type'', JStr ''ExpressionStatement''), (''expression'', e), (''loc'', loc_at l c)]"

definition member :: "jsval \<Rightarrow> string \<Rightarrow> int \<Rightarrow> int \<Rightarrow> jsval" where
  "member obj name l c =
     JObj [(''type'', JStr ''MemberExpression''), (''computed'', JBool False),
           (''object'', obj), (''property'', ident_node name l (c + 2)),
           (''loc'', loc_at l c)]"

text \<open>\<^verbatim>\<open>eval(x);\<close> on line 1, \<^verbatim>\<open>d.innerHTML;\<close> on line 2, \<^verbatim>\<open>eval(x);\<close> on line 3.\<close>

definition eval_example :: jsval where
  "eval_example =
     program [expression_statement (call_eval 1 0) 1 0,
              expression_statement (member (ident_node ''d'' 2 0) ''innerHTML'' 2 0) 2 0,
              expression_statement (call_eval 3 0) 3 0]"

definition for_statement :: "jsval \<Rightarrow> int \<Rightarrow> int \<Rightarrow> jsval" where
  "for_statement body l c =
     JObj [(''type'', JStr ''ForStatement''), (''init'', JNull), (''test'', JNull),
           (''update'', JNull), (''body'', body), (''loc'', loc_at l c)]"

definition do_while_statement :: "jsval \<Rightarrow> jsval \<Rightarrow> int \<Rightarrow> int \<Rightarrow> jsval" where
  "do_while_statement body test l c =
     JObj [(''type'', JStr ''DoWhileStatement''), (''body'', body), (''test'', test),
           (''loc'', loc_at l c)]"

text \<open>Three \<^verbatim>\<open>for (;;) { ... }\<close> inside one another, on lines 1, 2 and 3.\<close>

definition innermost_for :: jsval where
  "innermost_for = for_statement (block [] 3 13) 3 4"

definition middle_for :: jsval where
  "middle_for = for_statement (block [innermost_for] 2 11) 2 2"

definition outer_for :: jsval where
  "outer_for = for_statement (block [middle_for] 1 9) 1 0"

definition three_nested_fors :: jsval where
  "three_nested_fors = program [outer_for]"

text \<open>\<^verbatim>\<open>do { for (;;) { for (;;) {} } } while (a);\<close>\<close>

definition do_while_example :: jsval where
  "do_while_example =
     do_while_statement
       (block [for_statement (block [for_statement (block [] 3 13) 3 4] 2 11) 2 2] 1 3)
       (ident_node ''a'' 5 9) 1 0"

text \<open>\<^verbatim>\<open>eval(x); eval(y);\<close> on one line.\<close>

definition same_line_evals :: jsval where
  "same_line_evals =
     program [expression_statement (call_eval 1 0) 1 0,
              expression_statement (call_eval 1 9) 1 9]"

definition return_statement :: "int \<Rightarrow> int \<Rightarrow> jsval" where
  "return_statement l c =
     JObj [(''type'', JStr ''ReturnStatement''), (''argument'', JNull), (''loc'', loc_at l c)]"

definition function_declaration :: "string \<Rightarrow> jsval \<Rightarrow> int \<Rightarrow> int \<Rightarrow> jsval" where
  "function_declaration name body l c =
     JObj [(''type'', JStr ''FunctionDeclaration''), (''id'', ident_node name l (c + 9)),
           (''params'', JArr []), (''body'', body), (''generator'', JBool False),
           (''expression'', JBool False), (''async'', JBool False), (''loc'', loc_at l c)]"

text \<open>
  \<^verbatim>\<open>function f() {\<close> on line 1, \<^verbatim>\<open>return;\<close> on line 2, \<^verbatim>\<open>x;\<close> on line 3,
  \<^verbatim>\<open>}\<close> on line 4.
\<close>

definition dead_code_block :: jsval where
  "dead_code_block =
     block [return_statement 2 2, expression_statement (ident_node ''x'' 3 2) 3 2] 1 13"

definition dead_code_example :: jsval where
  "dead_code_example = program [function_declaration ''f'' dead_code_block 1 0]"

text \<open>A call of \<^verbatim>\<open>eval\<close> as a front-end without locations would build it.\<close>

definition call_eval_without_loc :: jsval where
  "call_eval_without_loc =
     JObj [(''type'', JStr ''CallExpression''),
           (''callee'', JObj [(''type'', JStr ''Identifier''), (''name'', JStr ''eval'')]),
           (''arguments'', JArr [])]"

definition assignment_expression :: "int \<Rightarrow> int \<Rightarrow> jsval" where
  "assignment_expression l c =
     JObj [(''type'', JStr ''AssignmentExpression''), (''operator'', JStr ''=''),
           (''left'', ident_node ''a'' l c), (''right'', ident_node ''b'' l (c + 4)),
           (''loc'', loc_at l c)]"

text \<open>
  \<^verbatim>\<open>eval();\<close> without location on the call, then \<^verbatim>\<open>if (a = b) {}\<close> on line 2.
\<close>

definition throwing_example :: jsval where
  "throwing_example =
     program [expression_statement call_eval_without_loc 1 0,
              if_statement (assignment_expression 2 4) (block [] 2 11) 2]"

text \<open>Front-ends that return that tree for any text.\<close>

definition throwing_example_parsers :: parsers where
  "throwing_example_parsers =
     \<lparr>esprima_parseScript = (\<lambda>content. Inr throwing_example),
      typescriptParse = (\<lambda>content. Inr throwing_example)\<rparr>"

text \<open>
  A stand-in for \<^verbatim>\<open>path.extname\<close> on plain file names: the text from the last dot
  on, or nothing when there is no dot.
\<close>

fun simple_extname :: "string \<Rightarrow> string" where
  "simple_extname [] = []"
| "simple_extname (c # cs) =
     (if CHR ''.'' \<in> set cs then simple_extname cs
      else if c = CHR ''.'' then c # cs else [])"



definition while_statement :: "jsval \<Rightarrow> jsval \<Rightarrow> int \<Rightarrow> int \<Rightarrow> jsval" where
  "while_statement test body l c =
     JObj [(''type'', JStr ''WhileStatement''), (''test'', test), (''body'', body),
           (''loc'', loc_at l c)]"

text \<open>\<^verbatim>\<open>while (a) { for (;;) { for (;;) {} } }\<close>: the same nest under a \<^verbatim>\<open>while\<close>.\<close>

definition while_example :: jsval where
  "while_example =
     while_statement (ident_node ''a'' 1 7)
       (block [for_statement (block [for_statement (block [] 3 13) 3 4] 2 11) 2 2] 1 10)
       1 0"


section \<open>What each analyzer finds at one node\<close>

text \<open>
  Notions for stating and proving the claims. \<open>collect\<close> gathers what a callback
  pushes over a list of visits, stopping at the first throw. \<open>located\<close> says that
  \<^verbatim>\<open>n.loc.start\<close> can be read, as it can on every node a front-end builds with
  locations switched on; \<open>line_of\<close> and \<open>column_of\<close> are then
  \<^verbatim>\<open>n.loc.start.line\<close> and \<^verbatim>\<open>n.loc.start.column\<close>.
\<close>

fun collect :: "('a \<Rightarrow> js_error + 'b list) \<Rightarrow> 'a list \<Rightarrow> js_error + 'b list" where
  "collect emit [] = Inr []"
| "collect emit (x # xs) =
     and_then (emit x) (\<lambda>a. and_then (collect emit xs) (\<lambda>b. Inr (a @ b)))"

definition line_of :: "jsval \<Rightarrow> jsval" where
  "line_of n = get_prop (get_prop (get_prop n ''loc'') ''start'') ''line''"

definition column_of :: "jsval \<Rightarrow> jsval" where
  "column_of n = get_prop (get_prop (get_prop n ''loc'') ''start'') ''column''"

definition located :: "jsval \<Rightarrow> bool" where
  "located n = (case start_line n of Inr l \<Rightarrow> True | Inl e \<Rightarrow> False)"

subsection \<open>Security\<close>

text \<open>
  \<open>security_findings\<close> is what the callback pushes at one node, or the error it
  throws there; \<open>security_found\<close> is what it pushes when the locations can be read.
\<close>

definition security_findings :: "string \<Rightarrow> jsval \<Rightarrow> js_error + issue list" where
  "security_findings filePath n =
     and_then
       (if is_eval_call n then and_then (eval_issue filePath n) (\<lambda>i. Inr [i]) else Inr [])
       (\<lambda>a. and_then
          (if is_innerHTML n then and_then (innerHTML_issue filePath n) (\<lambda>i. Inr [i])
           else Inr [])
          (\<lambda>b. Inr (a @ b)))"

definition eval_found :: "string \<Rightarrow> jsval \<Rightarrow> issue" where
  "eval_found filePath n =
     \<lparr>issue_id = ''security-eval-'' @ filePath @ ''-'' @ js_to_string (line_of n),
      issue_type = ''security'',
      severity = ''critical'',
      title = ''Dangerous eval() usage'',
      description = ''Using eval() can lead to code injection vulnerabilities.'',
      issue_file = \<lparr>path = filePath, line = line_of n, column = column_of n\<rparr>,
      rule = \<lparr>rule_id = ''no-eval'', rule_name = ''No eval()'', category = ''security'',
              documentation = Some ''https://eslint.org/docs/rules/no-eval'',
              enabled = None, threshold = None\<rparr>,
      suggestion = None,
      metadata = Some \<lparr>cwe = [''CWE-95'']\<rparr>\<rparr>"

definition innerHTML_found :: "string \<Rightarrow> jsval \<Rightarrow> issue" where
  "innerHTML_found filePath n =
     \<lparr>issue_id = ''security-innerHTML-'' @ filePath @ ''-'' @ js_to_string (line_of n),
      issue_type = ''security'',
      severity = ''high'',
      title = ''Potential XSS vulnerability'',
      description = ''Direct innerHTML manipulation can lead to XSS attacks.'',
      issue_file = \<lparr>path = filePath, line = line_of n, column = column_of n\<rparr>,
      rule = \<lparr>rule_id = ''no-innerHTML'', rule_name = ''No innerHTML'', category = ''security'',
              documentation = None, enabled = None, threshold = None\<rparr>,
      suggestion = None,
      metadata = Some \<lparr>cwe = [''CWE-79'']\<rparr>\<rparr>"

definition security_found :: "string \<Rightarrow> jsval \<Rightarrow> issue list" where
  "security_found filePath n =
     (if is_eval_call n then [eval_found filePath n] else [])
     @ (if is_innerHTML n then [innerHTML_found filePath n] else [])"

subsection \<open>Performance\<close>

definition performance_findings :: "string \<Rightarrow> jsval \<Rightarrow> js_error + issue list" where
  "performance_findings filePath n =
     and_then
       (if is_flagged_loop n \<and> findNestedLoops n 0 > 2
        then and_then (nested_loops_issue filePath n (findNestedLoops n 0)) (\<lambda>i. Inr [i])
        else Inr [])
       (\<lambda>a. and_then
          (if has_type n ''ArrayExpression'' then
             and_then (read_prop (get_prop n ''elements'') ''length'') (\<lambda>len.
               if js_gt len 1000
               then and_then (large_array_issue filePath n len) (\<lambda>i. Inr [i])
               else Inr [])
           else Inr [])
          (\<lambda>b. Inr (a @ b)))"

definition nested_loops_found :: "string \<Rightarrow> jsval \<Rightarrow> issue" where
  "nested_loops_found filePath n =
     \<lparr>issue_id = ''performance-nested-loops-'' @ filePath @ ''-'' @ js_to_string (line_of n),
      issue_type = ''performance'',
      severity = ''medium'',
      title = ''Deeply nested loops ('' @ show_int (findNestedLoops n 0) @ '' levels)'',
      description = ''Deeply nested loops can cause performance issues.'',
      issue_file = \<lparr>path = filePath, line = line_of n, column = column_of n\<rparr>,
      rule = \<lparr>rule_id = ''max-nested-loops'', rule_name = ''Maximum nested loops'',
              category = ''performance'', documentation = None, enabled = None,
              threshold = None\<rparr>,
      suggestion = None,
      metadata = None\<rparr>"

definition large_array_found :: "string \<Rightarrow> jsval \<Rightarrow> issue" where
  "large_array_found filePath n =
     \<lparr>issue_id = ''performance-large-array-'' @ filePath @ ''-'' @ js_to_string (line_of n),
      issue_type = ''performance'',
      severity = ''low'',
      title = ''Large array literal'',
      description = ''Array with '' @ js_to_string (get_prop (get_prop n ''elements'') ''length'')
        @ '' elements may impact performance.'',
      issue_file = \<lparr>path = filePath, line = line_of n, column = column_of n\<rparr>,
      rule = \<lparr>rule_id = ''max-array-size'', rule_name = ''Maximum array size'',
              category = ''performance'', documentation = None, enabled = None,
              threshold = None\<rparr>,
      suggestion = None,
      metadata = None\<rparr>"

definition is_large_array :: "jsval \<Rightarrow> bool" where
  "is_large_array n =
     (has_type n ''ArrayExpression''
      \<and> js_gt (get_prop (get_prop n ''elements'') ''length'') 1000)"

definition performance_found :: "string \<Rightarrow> jsval \<Rightarrow> issue list" where
  "performance_found filePath n =
     (if is_flagged_loop n \<and> findNestedLoops n 0 > 2 then [nested_loops_found filePath n] else [])
     @ (if is_large_array n then [large_array_found filePath n] else [])"

text \<open>What the performance analyzer needs of a node in order not to throw.\<close>

definition performance_ready :: "jsval \<Rightarrow> bool" where
  "performance_ready n =
     ((is_flagged_loop n \<longrightarrow> located n)
      \<and> (has_type n ''ArrayExpression'' \<longrightarrow> located n \<and> isArray (get_prop n ''elements'')))"

subsection \<open>Issue ids\<close>

text \<open>Reading a decimal numeral back, to show that printing one loses nothing.\<close>

definition digit_value :: "char \<Rightarrow> nat" where
  "digit_value c = of_char c - 48"

definition undigits :: "string \<Rightarrow> nat" where
  "undigits s = foldl (\<lambda>a c. 10 * a + digit_value c) 0 s"

text \<open>
  The text an issue id starts with, by the id of the issue's rule, for the rules of the
  security and performance analyzers.
\<close>

definition id_prefix :: "string \<Rightarrow> string option" where
  "id_prefix r =
     (if r = ''no-eval'' then Some ''security-eval-''
      else if r = ''no-innerHTML'' then Some ''security-innerHTML-''
      else if r = ''max-nested-loops'' then Some ''performance-nested-loops-''
      else if r = ''max-array-size'' then Some ''performance-large-array-''
      else None)"

text \<open>An issue whose id is that prefix, the file path, a dash and the issue's line.\<close>

definition keyed :: "string \<Rightarrow> issue \<Rightarrow> bool" where
  "keyed filePath i =
     (\<exists>p. id_prefix (rule_id (rule i)) = Some p
        \<and> issue_id i = p @ filePath @ ''-'' @ js_to_string (line (issue_file i)))"

subsection \<open>Bugs\<close>

text \<open>
  The bug analyzer at one visit. \<open>is_dead_code_return\<close> is the condition under which
  the first check pushes, for an array \<^verbatim>\<open>parent.body\<close>; \<open>next_statement\<close> is
  \<^verbatim>\<open>parent.body[index + 1]\<close>.
\<close>

definition bugs_findings :: "string \<Rightarrow> visit \<Rightarrow> js_error + issue list" where
  "bugs_findings filePath v =
     and_then (unreachable_check filePath v [])
       (\<lambda>a. and_then
          (if is_assignment_condition (node v)
           then and_then (assignment_issue filePath (node v)) (\<lambda>i. Inr [i])
           else Inr [])
          (\<lambda>b. Inr (a @ b)))"

definition is_dead_code_return :: "visit \<Rightarrow> bool" where
  "is_dead_code_return v =
     (has_type (node v) ''ReturnStatement'' \<and> truthy (parent v)
      \<and> has_type (parent v) ''BlockStatement''
      \<and> (case get_prop (parent v) ''body'' of
            JArr stmts \<Rightarrow> index_in_body v < int (length stmts) - 1
          | _ \<Rightarrow> False))"

definition next_statement :: "visit \<Rightarrow> jsval" where
  "next_statement v =
     (case get_prop (parent v) ''body'' of
        JArr stmts \<Rightarrow> nth_js stmts (index_in_body v + 1)
      | _ \<Rightarrow> JUndefined)"

definition unreachable_found :: "string \<Rightarrow> visit \<Rightarrow> issue" where
  "unreachable_found filePath v =
     \<lparr>issue_id = ''bug-unreachable-'' @ filePath @ ''-'' @ js_to_string (line_of (node v)),
      issue_type = ''bug'',
      severity = ''medium'',
      title = ''Unreachable code after return'',
      description = ''Code after return statement will never be executed.'',
      issue_file = \<lparr>path = filePath, line = line_of (next_statement v),
                      column = column_of (next_statement v)\<rparr>,
      rule = \<lparr>rule_id = ''no-unreachable'', rule_name = ''No unreachable code'',
              category = ''bug'', documentation = None, enabled = None, threshold = None\<rparr>,
      suggestion = None,
      metadata = None\<rparr>"

definition assignment_found :: "string \<Rightarrow> jsval \<Rightarrow> issue" where
  "assignment_found filePath n =
     \<lparr>issue_id = ''bug-assignment-condition-'' @ filePath @ ''-'' @ js_to_string (line_of n),
      issue_type = ''bug'',
      severity = ''high'',
      title = ''Assignment in condition'',
      description =
        ''Assignment in condition is likely a mistake. Did you mean to use == or ===?'',
      issue_file = \<lparr>path = filePath, line = line_of (get_prop n ''test''),
                      column = column_of (get_prop n ''test'')\<rparr>,
      rule = \<lparr>rule_id = ''no-assignment-in-condition'',
              rule_name = ''No assignment in condition'',
              category = ''bug'', documentation = None, enabled = None, threshold = None\<rparr>,
      suggestion = None,
      metadata = None\<rparr>"

definition bugs_found :: "string \<Rightarrow> visit \<Rightarrow> issue list" where
  "bugs_found filePath v =
     (if is_dead_code_return v then [unreachable_found filePath v] else [])
     @ (if is_assignment_condition (node v) then [assignment_found filePath (node v)] else [])"

text \<open>
  What the bug analyzer needs at a visit in order not to throw, and what a front-end
  with locations switched on provides: a node with a type has its location, so has the
  test of a condition, and a \<^verbatim>\<open>BlockStatement\<close> that a node hangs under has an array
  \<^verbatim>\<open>body\<close> of statements with their locations.
\<close>

definition bugs_ready :: "visit \<Rightarrow> bool" where
  "bugs_ready v =
     ((truthy (get_prop (node v) ''type'') \<longrightarrow> located (node v))
      \<and> (is_assignment_condition (node v) \<longrightarrow> located (get_prop (node v) ''test''))
      \<and> (has_type (parent v) ''BlockStatement'' \<longrightarrow>
           (case get_prop (parent v) ''body'' of
              JArr stmts \<Rightarrow> list_all located stmts
            | _ \<Rightarrow> False)))"

subsection \<open>Repository\<close>

text \<open>
  The analysis of one file of the repository, when there is one: the file can be read
  and its extension resolves to a language.
\<close>

definition analysed :: "host \<Rightarrow> rules \<Rightarrow> parsers \<Rightarrow> string \<Rightarrow> (string \<times> analysis) option" where
  "analysed h rs ps filePath =
     (case readFile h filePath of
        Inl error \<Rightarrow> None
      | Inr content \<Rightarrow>
          (case getLanguageFromFile (extname h) filePath of
             None \<Rightarrow> None
           | Some language \<Rightarrow>
               Some (language,
                 analyzeFile rs ps (clock_at h filePath) filePath content language)))"

definition entry_of :: "host \<Rightarrow> rules \<Rightarrow> parsers \<Rightarrow> string \<Rightarrow> file_entry list" where
  "entry_of h rs ps filePath =
     (case analysed h rs ps filePath of
        None \<Rightarrow> []
      | Some (language, a) \<Rightarrow>
          [\<lparr>entry_path = filePath, entry_language = language, entry_metrics = metrics a,
            issuesCount = length (issues a)\<rparr>])"

section \<open>Facts about the model\<close>

lemma split_on_not_Nil: "split_on sep s \<noteq> []"
  by (induction s) (auto split: list.splits)

lemma length_split_on: "length (split_on sep s) = Suc (count_list s sep)"
  by (induction s) (auto split: list.splits simp: split_on_not_Nil)

subsection \<open>Cyclomatic complexity\<close>

lemma complexity_callback_eq:
  "complexity_callback v c = Inr (if is_decision_point (node v) then c + 1 else c)"
  by (auto simp: complexity_callback_def is_decision_point_def branching_types_def Let_def)

lemma run_complexity:
  "run complexity_callback vs c = Inr (c + int (length (filter is_decision_point (map node vs))))"
  by (induction vs arbitrary: c) (simp_all add: complexity_callback_eq)

lemma calculateComplexity_eq:
  "calculateComplexity ast = Inr (1 + int (length (filter is_decision_point (tree_nodes ast))))"
  by (simp add: calculateComplexity_def traverse_run run_complexity tree_nodes_def)

subsection \<open>Throwing, collecting, locations\<close>

lemma and_then_simps [simp]:
  "and_then (Inl e) f = Inl e"
  "and_then (Inr x) f = f x"
  by (simp_all add: and_then_def)

lemma read_prop_cases:
  "(\<exists>e. read_prop x k = Inl e) \<or> read_prop x k = Inr (get_prop x k)"
  by (cases x) auto

lemma located_start:
  assumes "located n"
  shows "start_line n = Inr (line_of n) \<and> start_column n = Inr (column_of n)"
proof -
  from assms obtain l where l: "start_line n = Inr l"
    by (auto simp: located_def split: sum.splits)
  have a: "read_prop n ''loc'' = Inr (get_prop n ''loc'')"
    using l read_prop_cases [of n "''loc''"] by (auto simp: start_line_def)
  have b: "read_prop (get_prop n ''loc'') ''start'' = Inr (get_prop (get_prop n ''loc'') ''start'')"
    using l a read_prop_cases [of "get_prop n ''loc''" "''start''"] by (auto simp: start_line_def)
  have c: "read_prop (get_prop (get_prop n ''loc'') ''start'') ''line'' = Inr (line_of n)"
    using l a b read_prop_cases [of "get_prop (get_prop n ''loc'') ''start''" "''line''"]
    by (auto simp: start_line_def line_of_def)
  have d: "read_prop (get_prop (get_prop n ''loc'') ''start'') ''column'' = Inr (column_of n)"
    using c by (cases "get_prop (get_prop n ''loc'') ''start''") (auto simp: column_of_def)
  show ?thesis using a b c d by (simp add: start_line_def start_column_def)
qed

lemma run_collect:
  assumes "\<And>v acc. cb v acc = and_then (emit v) (\<lambda>xs. Inr (acc @ xs))"
  shows "run cb vs acc = and_then (collect emit vs) (\<lambda>xs. Inr (acc @ xs))"
proof (induction vs arbitrary: acc)
  case Nil
  then show ?case by simp
next
  case (Cons v vs)
  show ?case
  proof (cases "emit v")
    case (Inl e)
    then show ?thesis using assms [of v acc] by simp
  next
    case (Inr a)
    then show ?thesis
      using assms [of v acc] Cons.IH [of "acc @ a"]
      by (cases "collect emit vs") simp_all
  qed
qed

lemma collect_total:
  assumes "\<And>v. v \<in> set vs \<Longrightarrow> emit v = Inr (g v)"
  shows "collect emit vs = Inr (concat (map g vs))"
  using assms by (induction vs) simp_all

subsection \<open>The security analyzer\<close>

lemma security_callback_emit:
  "security_callback filePath v acc =
     and_then (security_findings filePath (node v)) (\<lambda>xs. Inr (acc @ xs))"
  by (auto simp: security_callback_def security_findings_def push_def and_then_def
      split: sum.splits)

lemma eval_issue_located:
  "located n \<Longrightarrow> eval_issue filePath n = Inr (eval_found filePath n)"
  by (simp add: eval_issue_def eval_found_def located_start inline_rule_def)

lemma innerHTML_issue_located:
  "located n \<Longrightarrow> innerHTML_issue filePath n = Inr (innerHTML_found filePath n)"
  by (simp add: innerHTML_issue_def innerHTML_found_def located_start inline_rule_def)

lemma security_findings_located:
  assumes "is_eval_call n \<or> is_innerHTML n \<longrightarrow> located n"
  shows "security_findings filePath n = Inr (security_found filePath n)"
  using assms
  by (auto simp: security_findings_def security_found_def eval_issue_located
      innerHTML_issue_located)

lemma analyzeSecurity_located:
  assumes "language = ''javascript'' \<or> language = ''typescript''"
    and "\<forall>n \<in> set (tree_nodes ast). is_eval_call n \<or> is_innerHTML n \<longrightarrow> located n"
  shows "analyzeSecurity ast filePath language
    = Inr (concat (map (security_found filePath) (tree_nodes ast)))"
proof -
  have "collect (\<lambda>v. security_findings filePath (node v)) (visits (root ast))
      = Inr (concat (map (\<lambda>v. security_found filePath (node v)) (visits (root ast))))"
    using assms(2) by (intro collect_total security_findings_located) (simp add: tree_nodes_def)
  then show ?thesis
    using assms(1)
      run_collect [of "security_callback filePath" "\<lambda>v. security_findings filePath (node v)"
        "visits (root ast)" "[]", OF security_callback_emit]
    by (simp add: analyzeSecurity_def traverse_run tree_nodes_def comp_def)
qed

lemma filter_no_eval:
  "filter (\<lambda>i. rule_id (rule i) = ''no-eval'') (concat (map (security_found filePath) ns))
   = map (eval_found filePath) (filter is_eval_call ns)"
  by (induction ns) (simp_all add: security_found_def eval_found_def innerHTML_found_def)

subsection \<open>The performance analyzer\<close>

lemma performance_callback_emit:
  "performance_callback filePath v acc =
     and_then (performance_findings filePath (node v)) (\<lambda>xs. Inr (acc @ xs))"
  by (auto simp: performance_callback_def performance_findings_def push_def and_then_def Let_def
      split: sum.splits)

lemma nested_loops_issue_located:
  "located n \<Longrightarrow>
   nested_loops_issue filePath n (findNestedLoops n 0) = Inr (nested_loops_found filePath n)"
  by (simp add: nested_loops_issue_def nested_loops_found_def located_start inline_rule_def)

lemma large_array_issue_located:
  "located n \<Longrightarrow>
   large_array_issue filePath n (get_prop (get_prop n ''elements'') ''length'')
     = Inr (large_array_found filePath n)"
  by (simp add: large_array_issue_def large_array_found_def located_start inline_rule_def)

lemma read_length_array:
  "isArray x \<Longrightarrow> read_prop x ''length'' = Inr (get_prop x ''length'')"
  by (cases x) simp_all

lemma performance_findings_ready:
  assumes "performance_ready n"
  shows "performance_findings filePath n = Inr (performance_found filePath n)"
  using assms
  by (auto simp: performance_findings_def performance_found_def performance_ready_def
      is_large_array_def nested_loops_issue_located large_array_issue_located read_length_array)

lemma analyzePerformance_ready:
  assumes "language = ''javascript'' \<or> language = ''typescript''"
    and "\<forall>n \<in> set (tree_nodes ast). performance_ready n"
  shows "analyzePerformance ast filePath language
    = Inr (concat (map (performance_found filePath) (tree_nodes ast)))"
proof -
  have "collect (\<lambda>v. performance_findings filePath (node v)) (visits (root ast))
      = Inr (concat (map (\<lambda>v. performance_found filePath (node v)) (visits (root ast))))"
    using assms(2) by (intro collect_total performance_findings_ready) (simp add: tree_nodes_def)
  then show ?thesis
    using assms(1)
      run_collect [of "performance_callback filePath"
        "\<lambda>v. performance_findings filePath (node v)" "visits (root ast)" "[]",
        OF performance_callback_emit]
    by (simp add: analyzePerformance_def traverse_run tree_nodes_def comp_def)
qed

lemma filter_nested_loops:
  "filter (\<lambda>i. rule_id (rule i) = ''max-nested-loops'')
     (concat (map (performance_found filePath) ns))
   = map (nested_loops_found filePath)
       (filter (\<lambda>n. is_flagged_loop n \<and> findNestedLoops n 0 > 2) ns)"
  by (induction ns) (simp_all add: performance_found_def nested_loops_found_def large_array_found_def)

text \<open>
  What the performance analyzer does at \<^verbatim>\<open>for\<close> and \<^verbatim>\<open>while\<close> statements, on a
  tree as a front-end builds it: its issues with rule id \<^verbatim>\<open>max-nested-loops\<close> are,
  in walk order, one per \<^verbatim>\<open>for\<close> or \<^verbatim>\<open>while\<close> statement whose
  \<^verbatim>\<open>findNestedLoops\<close> depth is greater than 2. Three nested \<^verbatim>\<open>for\<close> loops give
  one issue, at the outermost loop, citing 3 levels.
\<close>

lemma analyzePerformance_nested_loops:
  "(language = ''javascript'' \<or> language = ''typescript'' \<longrightarrow>
      (\<forall>n \<in> set (tree_nodes ast). performance_ready n) \<longrightarrow>
      (\<exists>found. analyzePerformance ast filePath language = Inr found
         \<and> filter (\<lambda>i. rule_id (rule i) = ''max-nested-loops'') found =
             map (\<lambda>n.
                \<lparr>issue_id =
                   ''performance-nested-loops-'' @ filePath @ ''-'' @ js_to_string (line_of n),
                 issue_type = ''performance'',
                 severity = ''medium'',
                 title = ''Deeply nested loops ('' @ show_int (findNestedLoops n 0) @ '' levels)'',
                 description = ''Deeply nested loops can cause performance issues.'',
                 issue_file = \<lparr>path = filePath, line = line_of n, column = column_of n\<rparr>,
                 rule = \<lparr>rule_id = ''max-nested-loops'', rule_name = ''Maximum nested loops'',
                         category = ''performance'', documentation = None, enabled = None,
                         threshold = None\<rparr>,
                 suggestion = None,
                 metadata = None\<rparr>)
               (filter (\<lambda>n. (has_type n ''ForStatement'' \<or> has_type n ''WhileStatement'')
                             \<and> findNestedLoops n 0 > 2)
                  (tree_nodes ast))))
   \<and> (\<exists>found. analyzePerformance three_nested_fors ''a.js'' ''javascript'' = Inr found
        \<and> map (\<lambda>i. (issue_type i, severity i, title i, issue_file i)) found
           = [(''performance'', ''medium'', ''Deeply nested loops (3 levels)'',
               \<lparr>path = ''a.js'', line = JNum 1, column = JNum 0\<rparr>)])"
proof (intro conjI impI)
  assume lang: "language = ''javascript'' \<or> language = ''typescript''"
    and ready: "\<forall>n \<in> set (tree_nodes ast). performance_ready n"
  let ?found = "concat (map (performance_found filePath) (tree_nodes ast))"
  have "analyzePerformance ast filePath language = Inr ?found"
    using lang ready by (rule analyzePerformance_ready)
  moreover have "filter (\<lambda>i. rule_id (rule i) = ''max-nested-loops'') ?found
      = map (nested_loops_found filePath)
          (filter (\<lambda>n. is_flagged_loop n \<and> findNestedLoops n 0 > 2) (tree_nodes ast))"
    by (rule filter_nested_loops)
  ultimately show "\<exists>found. analyzePerformance ast filePath language = Inr found
         \<and> filter (\<lambda>i. rule_id (rule i) = ''max-nested-loops'') found =
             map (\<lambda>n.
                \<lparr>issue_id =
                   ''performance-nested-loops-'' @ filePath @ ''-'' @ js_to_string (line_of n),
                 issue_type = ''performance'',
                 severity = ''medium'',
                 title = ''Deeply nested loops ('' @ show_int (findNestedLoops n 0) @ '' levels)'',
                 description = ''Deeply nested loops can cause performance issues.'',
                 issue_file = \<lparr>path = filePath, line = line_of n, column = column_of n\<rparr>,
                 rule = \<lparr>rule_id = ''max-nested-loops'', rule_name = ''Maximum nested loops'',
                         category = ''performance'', documentation = None, enabled = None,
                         threshold = None\<rparr>,
                 suggestion = None,
                 metadata = None\<rparr>)
               (filter (\<lambda>n. (has_type n ''ForStatement'' \<or> has_type n ''WhileStatement'')
                             \<and> findNestedLoops n 0 > 2)
                  (tree_nodes ast))"
    unfolding nested_loops_found_def is_flagged_loop_def by blast
next
  have "map (\<lambda>i. (issue_type i, severity i, title i, issue_file i))
          (projr (analyzePerformance three_nested_fors ''a.js'' ''javascript''))
        = [(''performance'', ''medium'', ''Deeply nested loops (3 levels)'',
            \<lparr>path = ''a.js'', line = JNum 1, column = JNum 0\<rparr>)]
      \<and> isl (analyzePerformance three_nested_fors ''a.js'' ''javascript'') = False"
    by code_simp
  then show "\<exists>found. analyzePerformance three_nested_fors ''a.js'' ''javascript'' = Inr found
        \<and> map (\<lambda>i. (issue_type i, severity i, title i, issue_file i)) found
           = [(''performance'', ''medium'', ''Deeply nested loops (3 levels)'',
               \<lparr>path = ''a.js'', line = JNum 1, column = JNum 0\<rparr>)]"
    by (cases "analyzePerformance three_nested_fors ''a.js'' ''javascript''") auto
qed

lemma analyzePerformance_nested_loops_example:
  "list_all performance_ready (tree_nodes three_nested_fors)
   \<and> filter (\<lambda>n. (has_type n ''ForStatement'' \<or> has_type n ''WhileStatement'')
                 \<and> findNestedLoops n 0 > 2) (tree_nodes three_nested_fors) = [outer_for]
   \<and> findNestedLoops outer_for 0 = 3
   \<and> (\<exists>found. analyzePerformance three_nested_fors ''a.js'' ''typescript'' = Inr found
        \<and> map (\<lambda>i. (severity i, title i, line (issue_file i)))
             (filter (\<lambda>i. rule_id (rule i) = ''max-nested-loops'') found)
           = [(''medium'', ''Deeply nested loops (3 levels)'', JNum 1)])"
proof -
  have ready: "\<forall>n \<in> set (tree_nodes three_nested_fors). performance_ready n"
    by code_simp
  have loops: "filter (\<lambda>n. (has_type n ''ForStatement'' \<or> has_type n ''WhileStatement'')
                 \<and> findNestedLoops n 0 > 2) (tree_nodes three_nested_fors) = [outer_for]"
    by code_simp
  have facts: "findNestedLoops outer_for 0 = 3" "line_of outer_for = JNum 1"
    "show_int 3 = ''3''"
    by code_simp+
  show ?thesis
    using ready loops facts
      analyzePerformance_nested_loops [of "''typescript''" three_nested_fors "''a.js''"]
    by (auto simp: list_all_iff)
qed

subsection \<open>Issue ids\<close>

lemma digit_value_char_of: "d < 10 \<Longrightarrow> digit_value (char_of (48 + d)) = d"
  by (simp add: digit_value_def)

lemma undigits_snoc: "undigits (s @ [c]) = 10 * undigits s + digit_value c"
  by (simp add: undigits_def)

lemma undigits_digits: "undigits (digits n) = n"
proof (induction n rule: digits.induct)
  case (1 n)
  show ?case
  proof (cases "n < 10")
    case True
    then show ?thesis
      by (subst digits.simps) (simp add: undigits_def digit_value_char_of)
  next
    case False
    then have "undigits (digits n) = 10 * undigits (digits (n div 10)) + digit_value (char_of (48 + n mod 10))"
      by (subst digits.simps) (simp add: undigits_snoc)
    also have "\<dots> = 10 * (n div 10) + n mod 10"
      using False "1.IH" by (simp add: digit_value_char_of)
    finally show ?thesis by simp
  qed
qed

lemma digits_inj: "digits a = digits b \<Longrightarrow> a = b"
  by (metis undigits_digits)

lemma digits_not_Nil: "digits n \<noteq> []"
  by (subst digits.simps) simp

lemma char_of_digit_not_minus: "(d::nat) < 10 \<Longrightarrow> char_of (48 + d) \<noteq> CHR ''-''"
proof
  assume d: "d < 10" and e: "char_of (48 + d) = CHR ''-''"
  have "of_char (char_of (48 + d) :: char) = (48 + d) mod 256"
    by (simp add: of_char_of)
  moreover have "of_char (CHR ''-'') = (45 :: nat)" by simp
  ultimately show False using d e by simp
qed

lemma minus_notin_digits: "CHR ''-'' \<notin> set (digits n)"
proof (induction n rule: digits.induct)
  case (1 n)
  show ?case
  proof (cases "n < 10")
    case True
    then show ?thesis
      using char_of_digit_not_minus [of n] by (subst digits.simps) auto
  next
    case False
    then show ?thesis
      using "1.IH" char_of_digit_not_minus [of "n mod 10"]
      by (subst digits.simps) auto
  qed
qed

lemma show_int_inj: "show_int a = show_int b \<Longrightarrow> a = b"
proof -
  assume eq: "show_int a = show_int b"
  have hd_neg: "\<And>n. hd (digits n) \<noteq> CHR ''-''"
    using minus_notin_digits digits_not_Nil by (metis hd_in_set)
  show ?thesis
  proof (cases "a < 0"; cases "b < 0")
    assume "a < 0" "b < 0"
    then show ?thesis using eq digits_inj [of "nat (- a)" "nat (- b)"]
      by (simp add: show_int_def)
  next
    assume "a < 0" "\<not> b < 0"
    then show ?thesis using eq hd_neg [of "nat b"]
      by (auto simp: show_int_def dest: arg_cong [where f = hd])
  next
    assume "\<not> a < 0" "b < 0"
    then show ?thesis using eq hd_neg [of "nat a"]
      by (auto simp: show_int_def dest: arg_cong [where f = hd])
  next
    assume "\<not> a < 0" "\<not> b < 0"
    then show ?thesis using eq digits_inj [of "nat a" "nat b"]
      by (simp add: show_int_def)
  qed
qed

lemma collect_elems:
  "collect emit vs = Inr ys \<Longrightarrow> y \<in> set ys \<Longrightarrow>
   \<exists>v \<in> set vs. \<exists>xs. emit v = Inr xs \<and> y \<in> set xs"
proof (induction vs arbitrary: ys)
  case Nil
  then show ?case by simp
next
  case (Cons v vs)
  from Cons.prems(1) obtain a b where a: "emit v = Inr a" and b: "collect emit vs = Inr b"
    and ys: "ys = a @ b"
    by (auto simp: and_then_def split: sum.splits)
  show ?case
  proof (cases "y \<in> set a")
    case True
    then show ?thesis using a by auto
  next
    case False
    then have "y \<in> set b" using Cons.prems(2) ys by simp
    then show ?thesis using Cons.IH [OF b] by auto
  qed
qed

lemma eval_issue_keyed: "eval_issue filePath n = Inr i \<Longrightarrow> keyed filePath i"
  by (auto simp: eval_issue_def and_then_def keyed_def id_prefix_def inline_rule_def
      split: sum.splits)

lemma innerHTML_issue_keyed: "innerHTML_issue filePath n = Inr i \<Longrightarrow> keyed filePath i"
  by (auto simp: innerHTML_issue_def and_then_def keyed_def id_prefix_def inline_rule_def
      split: sum.splits)

lemma nested_loops_issue_keyed: "nested_loops_issue filePath n k = Inr i \<Longrightarrow> keyed filePath i"
  by (auto simp: nested_loops_issue_def and_then_def keyed_def id_prefix_def inline_rule_def
      split: sum.splits)

lemma large_array_issue_keyed: "large_array_issue filePath n len = Inr i \<Longrightarrow> keyed filePath i"
  by (auto simp: large_array_issue_def and_then_def keyed_def id_prefix_def inline_rule_def
      split: sum.splits)

lemma security_findings_keyed:
  "security_findings filePath n = Inr xs \<Longrightarrow> i \<in> set xs \<Longrightarrow> keyed filePath i"
  by (auto simp: security_findings_def and_then_def eval_issue_keyed innerHTML_issue_keyed
      split: sum.splits if_splits)

lemma performance_findings_keyed:
  "performance_findings filePath n = Inr xs \<Longrightarrow> i \<in> set xs \<Longrightarrow> keyed filePath i"
  by (auto simp: performance_findings_def and_then_def nested_loops_issue_keyed
      large_array_issue_keyed split: sum.splits if_splits)

lemma analyzeSecurity_keyed:
  assumes "analyzeSecurity ast filePath language = Inr found" and "i \<in> set found"
  shows "keyed filePath i"
proof (cases "language = ''javascript'' \<or> language = ''typescript''")
  case True
  then have "collect (\<lambda>v. security_findings filePath (node v)) (visits (root ast)) = Inr found"
    using assms(1)
      run_collect [of "security_callback filePath" "\<lambda>v. security_findings filePath (node v)"
        "visits (root ast)" "[]", OF security_callback_emit]
    by (auto simp: analyzeSecurity_def traverse_run and_then_def split: sum.splits)
  from collect_elems [OF this assms(2)] show ?thesis
    by (auto intro: security_findings_keyed)
next
  case False
  then show ?thesis using assms by (simp add: analyzeSecurity_def)
qed

lemma analyzePerformance_keyed:
  assumes "analyzePerformance ast filePath language = Inr found" and "i \<in> set found"
  shows "keyed filePath i"
proof (cases "language = ''javascript'' \<or> language = ''typescript''")
  case True
  then have "collect (\<lambda>v. performance_findings filePath (node v)) (visits (root ast)) = Inr found"
    using assms(1)
      run_collect [of "performance_callback filePath"
        "\<lambda>v. performance_findings filePath (node v)" "visits (root ast)" "[]",
        OF performance_callback_emit]
    by (auto simp: analyzePerformance_def traverse_run and_then_def split: sum.splits)
  from collect_elems [OF this assms(2)] show ?thesis
    by (auto intro: performance_findings_keyed)
next
  case False
  then show ?thesis using assms by (simp add: analyzePerformance_def)
qed

lemma keyed_ids:
  assumes "keyed filePath a" and "keyed filePath b"
    and "line (issue_file a) = JNum la" and "line (issue_file b) = JNum lb"
  shows "issue_id a = issue_id b \<longleftrightarrow> rule_id (rule a) = rule_id (rule b) \<and> la = lb"
proof -
  from assms(1,3) obtain p where p: "id_prefix (rule_id (rule a)) = Some p"
    and ida: "issue_id a = p @ filePath @ ''-'' @ show_int la"
    by (auto simp: keyed_def)
  from assms(2,4) obtain q where q: "id_prefix (rule_id (rule b)) = Some q"
    and idb: "issue_id b = q @ filePath @ ''-'' @ show_int lb"
    by (auto simp: keyed_def)
  show ?thesis
  proof (cases "rule_id (rule a) = rule_id (rule b)")
    case True
    then have "p = q" using p q by simp
    then show ?thesis using True ida idb show_int_inj [of la lb] by auto
  next
    case False
    then have "p @ filePath @ ''-'' @ show_int la \<noteq> q @ filePath @ ''-'' @ show_int lb"
      using p q by (auto simp: id_prefix_def split: if_splits)
    then show ?thesis using False ida idb by simp
  qed
qed

subsection \<open>The bug analyzer\<close>

lemma push_Nil: "push acc made = and_then (push [] made) (\<lambda>xs. Inr (acc @ xs))"
  by (cases made) (simp_all add: push_def)

lemma unreachable_check_emit:
  "unreachable_check filePath v acc
     = and_then (unreachable_check filePath v []) (\<lambda>xs. Inr (acc @ xs))"
proof (cases "has_type (node v) ''ReturnStatement'' \<and> truthy (parent v)
         \<and> has_type (parent v) ''BlockStatement''")
  case False
  then show ?thesis by (auto simp: unreachable_check_def)
next
  case True
  show ?thesis
  proof (cases "get_prop (parent v) ''body''")
    case (JArr stmts)
    then show ?thesis
      using True push_Nil [of acc]
      by (auto simp: unreachable_check_def Let_def)
  next
    case (JStr s)
    then show ?thesis
      using True push_Nil [of acc]
      by (auto simp: unreachable_check_def Let_def)
  qed (use True in \<open>auto simp: unreachable_check_def\<close>)
qed

lemma bugs_callback_emit:
  "bugs_callback filePath v acc = and_then (bugs_findings filePath v) (\<lambda>xs. Inr (acc @ xs))"
proof -
  have "bugs_callback filePath v acc
      = and_then (and_then (unreachable_check filePath v []) (\<lambda>xs. Inr (acc @ xs)))
          (\<lambda>issues1. if is_assignment_condition (node v)
             then push issues1 (assignment_issue filePath (node v)) else Inr issues1)"
    unfolding bugs_callback_def by (subst unreachable_check_emit) simp
  then show ?thesis
    by (auto simp: bugs_findings_def push_def and_then_def split: sum.splits)
qed

lemma has_type_truthy: "has_type n t \<Longrightarrow> t \<noteq> [] \<Longrightarrow> truthy (get_prop n ''type'')"
  by (simp add: has_type_def)

lemma index_in_body_ge: "- 1 \<le> index_in_body v"
  by (simp add: index_in_body_def split: option.splits)

lemma nth_js_located:
  assumes "list_all located stmts" and "- 1 \<le> i" and "i < int (length stmts) - 1"
  shows "located (nth_js stmts (i + 1))"
proof -
  have "nat (i + 1) < length stmts" using assms(2,3) by linarith
  then show ?thesis
    using assms by (simp add: nth_js_def list_all_length)
qed

lemma unreachable_issue_located:
  assumes "located n" and "located next"
  shows "unreachable_issue filePath n next =
     Inr \<lparr>issue_id = ''bug-unreachable-'' @ filePath @ ''-'' @ js_to_string (line_of n),
          issue_type = ''bug'',
          severity = ''medium'',
          title = ''Unreachable code after return'',
          description = ''Code after return statement will never be executed.'',
          issue_file = \<lparr>path = filePath, line = line_of next, column = column_of next\<rparr>,
          rule = \<lparr>rule_id = ''no-unreachable'', rule_name = ''No unreachable code'',
                  category = ''bug'', documentation = None, enabled = None, threshold = None\<rparr>,
          suggestion = None,
          metadata = None\<rparr>"
  using located_start [OF assms(1)] located_start [OF assms(2)]
  by (simp add: unreachable_issue_def inline_rule_def)

lemma assignment_issue_located:
  assumes "located n" and "located (get_prop n ''test'')"
  shows "assignment_issue filePath n = Inr (assignment_found filePath n)"
  using located_start [OF assms(1)] located_start [OF assms(2)]
  by (simp add: assignment_issue_def assignment_found_def inline_rule_def)

lemma unreachable_check_ready:
  assumes "bugs_ready v"
  shows "unreachable_check filePath v []
     = Inr (if is_dead_code_return v then [unreachable_found filePath v] else [])"
proof (cases "has_type (node v) ''ReturnStatement'' \<and> truthy (parent v)
         \<and> has_type (parent v) ''BlockStatement''")
  case False
  then show ?thesis by (auto simp: unreachable_check_def is_dead_code_return_def)
next
  case True
  then have n: "located (node v)"
    using assms has_type_truthy [of "node v" "''ReturnStatement''"] by (simp add: bugs_ready_def)
  from True assms obtain stmts where body: "get_prop (parent v) ''body'' = JArr stmts"
    and all: "list_all located stmts"
    by (auto simp: bugs_ready_def split: jsval.splits)
  show ?thesis
  proof (cases "index_in_body v < int (length stmts) - 1")
    case False
    then show ?thesis
      using True body by (simp add: unreachable_check_def is_dead_code_return_def)
  next
    case less: True
    have "located (nth_js stmts (index_in_body v + 1))"
      using all index_in_body_ge less by (rule nth_js_located)
    then show ?thesis
      using True body less n
      by (simp add: unreachable_check_def is_dead_code_return_def unreachable_found_def
          next_statement_def push_def unreachable_issue_located Let_def)
  qed
qed

lemma is_assignment_condition_typed:
  "is_assignment_condition n \<Longrightarrow> truthy (get_prop n ''type'')"
  by (auto simp: is_assignment_condition_def has_type_def)

lemma bugs_findings_ready:
  assumes "bugs_ready v"
  shows "bugs_findings filePath v = Inr (bugs_found filePath v)"
proof -
  have "is_assignment_condition (node v) \<Longrightarrow>
      assignment_issue filePath (node v) = Inr (assignment_found filePath (node v))"
    using assms is_assignment_condition_typed [of "node v"]
    by (intro assignment_issue_located) (simp_all add: bugs_ready_def)
  then show ?thesis
    by (auto simp: bugs_findings_def bugs_found_def unreachable_check_ready [OF assms])
qed

lemma analyzeBugs_ready:
  assumes "language = ''javascript'' \<or> language = ''typescript''"
    and "\<forall>v \<in> set (visits (root ast)). bugs_ready v"
  shows "analyzeBugs ast filePath language
    = Inr (concat (map (bugs_found filePath) (visits (root ast))))"
proof -
  have "collect (bugs_findings filePath) (visits (root ast))
      = Inr (concat (map (bugs_found filePath) (visits (root ast))))"
    using assms(2) by (intro collect_total bugs_findings_ready) simp
  then show ?thesis
    using assms(1)
      run_collect [of "bugs_callback filePath" "bugs_findings filePath"
        "visits (root ast)" "[]", OF bugs_callback_emit]
    by (simp add: analyzeBugs_def traverse_run)
qed

subsection \<open>The file orchestrator\<close>

lemma run_functions: "\<exists>k. run functions_callback vs c = Inr k"
  by (induction vs arbitrary: c) (simp_all add: functions_callback_def Let_def)

lemma run_classes: "\<exists>k. run classes_callback vs c = Inr k"
  by (induction vs arbitrary: c) (simp_all add: classes_callback_def)

lemma countFunctions_total: "\<exists>f. countFunctions ast = Inr f"
  by (simp add: countFunctions_def traverse_run run_functions)

lemma countClasses_total: "\<exists>k. countClasses ast = Inr k"
  by (simp add: countClasses_def traverse_run run_classes)

lemma analyzeComplexity_total: "\<exists>i1. analyzeComplexity rs now ast filePath = Inr i1"
  by (simp add: analyzeComplexity_def calculateComplexity_eq)

subsection \<open>Other languages\<close>

lemma parsePython_const: "parsePython content = parsePython []"
  by (simp add: parsePython_def)

lemma python_module_metrics:
  "truthy (parsePython [])"
  "calculateComplexity (parsePython []) = Inr 1"
  "countFunctions (parsePython []) = Inr 0"
  "countClasses (parsePython []) = Inr 0"
  "analyzeComplexity engine_rules now (parsePython []) filePath = Inr []"
proof -
  show "truthy (parsePython [])" by code_simp
  show c: "calculateComplexity (parsePython []) = Inr 1" by code_simp
  show "countFunctions (parsePython []) = Inr 0" by code_simp
  show "countClasses (parsePython []) = Inr 0" by code_simp
  show "analyzeComplexity engine_rules now (parsePython []) filePath = Inr []"
    using c by (simp add: analyzeComplexity_def engine_rules_def)
qed

lemma getLanguageFromFile_table:
  "getLanguageFromFile ext filePath =
     (let e = toLowerCase (ext filePath) in
      if e \<in> {''.js'', ''.jsx'', ''.mjs''} then Some ''javascript''
      else if e \<in> {''.ts'', ''.tsx''} then Some ''typescript''
      else if e = ''.py'' then Some ''python''
      else if e = ''.java'' then Some ''java''
      else if e = ''.go'' then Some ''go''
      else if e = ''.rs'' then Some ''rust''
      else if e \<in> {''.cpp'', ''.cc'', ''.cxx'', ''.hpp'', ''.h''} then Some ''cpp''
      else None)"
  by (simp add: getLanguageFromFile_def supportedLanguages_def Let_def)

subsection \<open>The repository orchestrator\<close>

lemma foldl_count_issue_frame:
  "analyzedFiles (foldl count_issue s is) = analyzedFiles s
   \<and> totalFiles (foldl count_issue s is) = totalFiles s"
  by (induction "is" arbitrary: s) (simp_all add: count_issue_def Let_def)

lemma process_file_entries:
  "file_entries (process_file h rs ps r p) = file_entries r @ entry_of h rs ps p"
  by (simp add: process_file_def entry_of_def analysed_def Let_def split: sum.splits option.splits)

lemma process_file_analyzed:
  "analyzedFiles (summary (process_file h rs ps r p))
     = analyzedFiles (summary r) + length (entry_of h rs ps p)"
  by (simp add: process_file_def entry_of_def analysed_def Let_def foldl_count_issue_frame
      split: sum.splits option.splits)

lemma process_file_total:
  "totalFiles (summary (process_file h rs ps r p)) = totalFiles (summary r)"
  by (simp add: process_file_def Let_def foldl_count_issue_frame
      split: sum.splits option.splits)

lemma foldl_process_file:
  "file_entries (foldl (process_file h rs ps) r fs)
     = file_entries r @ concat (map (entry_of h rs ps) fs)
   \<and> analyzedFiles (summary (foldl (process_file h rs ps) r fs))
     = analyzedFiles (summary r) + length (concat (map (entry_of h rs ps) fs))
   \<and> totalFiles (summary (foldl (process_file h rs ps) r fs)) = totalFiles (summary r)"
  by (induction fs arbitrary: r)
     (simp_all add: process_file_entries process_file_analyzed process_file_total)

lemma length_concat_entries:
  "length (concat (map (entry_of h rs ps) fs))
     = length (filter (\<lambda>p. analysed h rs ps p \<noteq> None) fs)"
  by (induction fs) (auto simp: entry_of_def split: option.splits)

text \<open>
  \<^verbatim>\<open>analyzeRepository\<close> goes through every file \<^verbatim>\<open>getSourceFiles\<close> lists, in
  order. A file is skipped only when reading it throws or its extension resolves to no
  language.
\<close>

lemma analyzeRepository_processes_every_file:
  "file_entries (analyzeRepository h rs ps)
     = concat (map (\<lambda>filePath.
         case readFile h filePath of
           Inl error \<Rightarrow> []
         | Inr content \<Rightarrow>
             (case getLanguageFromFile (extname h) filePath of
                None \<Rightarrow> []
              | Some language \<Rightarrow>
                  [\<lparr>entry_path = filePath, entry_language = language,
                    entry_metrics = metrics
                      (analyzeFile rs ps (clock_at h filePath) filePath content language),
                    issuesCount = length (issues
                      (analyzeFile rs ps (clock_at h filePath) filePath content language))\<rparr>]))
       (source_files h))
   \<and> analyzedFiles (summary (analyzeRepository h rs ps))
     = length (filter (\<lambda>filePath.
         \<not> isl (readFile h filePath) \<and> getLanguageFromFile (extname h) filePath \<noteq> None)
       (source_files h))
   \<and> totalFiles (summary (analyzeRepository h rs ps)) = length (source_files h)"
proof -
  have e: "entry_of h rs ps = (\<lambda>filePath.
         case readFile h filePath of
           Inl error \<Rightarrow> []
         | Inr content \<Rightarrow>
             (case getLanguageFromFile (extname h) filePath of
                None \<Rightarrow> []
              | Some language \<Rightarrow>
                  [\<lparr>entry_path = filePath, entry_language = language,
                    entry_metrics = metrics
                      (analyzeFile rs ps (clock_at h filePath) filePath content language),
                    issuesCount = length (issues
                      (analyzeFile rs ps (clock_at h filePath) filePath content language))\<rparr>]))"
    by (rule ext) (simp add: entry_of_def analysed_def split: sum.splits option.splits)
  have a: "(\<lambda>p. analysed h rs ps p \<noteq> None)
      = (\<lambda>filePath. \<not> isl (readFile h filePath) \<and> getLanguageFromFile (extname h) filePath \<noteq> None)"
    by (rule ext) (auto simp: analysed_def split: sum.splits option.splits)
  show ?thesis
    using foldl_process_file [of h rs ps _ "source_files h"]
      length_concat_entries [of h rs ps "source_files h"]
    unfolding analyzeRepository_def e a by simp
qed

subsection \<open>The loop of the analysis route\<close>

lemma analyze_each_file_cancelled:
  assumes "\<forall>j<k. status_before h (i + j) \<noteq> ''cancelled''"
    and "status_before h (i + k) = ''cancelled''"
    and "k < length files"
  shows "analyze_each_file h rs ps i files st
    = foldl (analyze_source_file h rs ps) st (take k files)"
  using assms
proof (induction files arbitrary: i k st)
  case Nil
  then show ?case by simp
next
  case (Cons f files)
  show ?case
  proof (cases k)
    case 0
    then show ?thesis using Cons.prems(2) by simp
  next
    case (Suc k')
    have now: "status_before h i \<noteq> ''cancelled''"
      using Cons.prems(1) Suc by (metis add.right_neutral zero_less_Suc)
    have later: "\<forall>j<k'. status_before h (Suc i + j) \<noteq> ''cancelled''"
      using Cons.prems(1) Suc by (metis Suc_less_eq add_Suc_shift)
    have stop: "status_before h (Suc i + k') = ''cancelled''"
      using Cons.prems(2) Suc by simp
    have len: "k' < length files"
      using Cons.prems(3) Suc by simp
    show ?thesis
      using now Suc Cons.IH [OF later stop len] by simp
  qed
qed

lemma analyze_source_file_processed:
  "processedFiles (analyze_source_file h rs ps st p)
     = processedFiles st + (if isl (getFileContent h p) then 0 else 1)"
  by (auto simp: analyze_source_file_def log_error_def Let_def split: sum.splits option.splits)

lemma analyze_source_file_filesAnalyzed:
  assumes "filesAnalyzed (doc_summary (doc st)) = processedFiles st"
  shows "filesAnalyzed (doc_summary (doc (analyze_source_file h rs ps st p)))
     = processedFiles (analyze_source_file h rs ps st p)"
  using assms
  by (auto simp: analyze_source_file_def log_error_def Let_def split: sum.splits option.splits)

lemma foldl_analyze_source_file:
  assumes "filesAnalyzed (doc_summary (doc st)) = processedFiles st"
  shows "filesAnalyzed (doc_summary (doc (foldl (analyze_source_file h rs ps) st fs)))
       = processedFiles st + length (filter (\<lambda>p. \<not> isl (getFileContent h p)) fs)"
  using assms
proof (induction fs arbitrary: st)
  case Nil
  then show ?case by simp
next
  case (Cons f fs)
  have "filesAnalyzed (doc_summary (doc (analyze_source_file h rs ps st f)))
      = processedFiles (analyze_source_file h rs ps st f)"
    using Cons.prems by (rule analyze_source_file_filesAnalyzed)
  from Cons.IH [OF this] show ?case
    by (simp add: analyze_source_file_processed)
qed

text \<open>
  The loop of the analysis route stops when cancelled. When the status first reads
  \<^verbatim>\<open>cancelled\<close> at position \<open>k\<close>, the loop has run the first \<open>k\<close> files and no other, and
  \<^verbatim>\<open>filesAnalyzed\<close> is \<open>k\<close> when the content of each of them could be retrieved.
\<close>

lemma route_loop_stops_when_cancelled:
  assumes "\<forall>j<k. status_before h j \<noteq> ''cancelled''"
    and "status_before h k = ''cancelled''"
    and "k < length files"
    and "\<forall>p \<in> set (take k files). \<not> isl (getFileContent h p)"
  shows "analyze_each_file h rs ps 0 files loop_start
      = foldl (analyze_source_file h rs ps) loop_start (take k files)
    \<and> filesAnalyzed (doc_summary (doc (analyze_each_file h rs ps 0 files loop_start))) = k"
proof -
  have run: "analyze_each_file h rs ps 0 files loop_start
      = foldl (analyze_source_file h rs ps) loop_start (take k files)"
    using assms(1-3) analyze_each_file_cancelled [of k h 0 files rs ps loop_start] by simp
  have "filter (\<lambda>p. \<not> isl (getFileContent h p)) (take k files) = take k files"
    using assms(4) by (simp add: filter_id_conv)
  then have "filesAnalyzed (doc_summary (doc (foldl (analyze_source_file h rs ps) loop_start
      (take k files)))) = k"
    using assms(3) foldl_analyze_source_file [of loop_start h rs ps "take k files"]
    by (simp add: loop_start_def)
  then show ?thesis using run by simp
qed

section \<open>The claims\<close>

text \<open>
  C1. When parsing fails (\<^verbatim>\<open>parseFile\<close> throws), \<^verbatim>\<open>analyzeFile\<close> returns exactly one
  issue: type \<^verbatim>\<open>bug\<close>, severity \<^verbatim>\<open>high\<close>, rule id \<^verbatim>\<open>parse-error\<close>, at line 1,
  column 1, its description ending in the message of the error thrown. The metrics
  report complexity 0, 0 functions, 0 classes, and the line count of the raw content:
  one more than its number of newline characters.
\<close>

theorem analyzeFile_parse_failure:
  assumes "parseFile ps content language = Inl e"
  shows "analyzeFile rs ps clk filePath content language =
     \<lparr>issues =
        [\<lparr>issue_id = ''parse-error-'' @ show_int (now_catch clk),
          issue_type = ''bug'',
          severity = ''high'',
          title = ''Parse Error'',
          description = ''Failed to parse file: '' @ message e,
          issue_file = \<lparr>path = filePath, line = JNum 1, column = JNum 1\<rparr>,
          rule = \<lparr>rule_id = ''parse-error'', rule_name = ''Parse Error'', category = ''syntax'',
                  documentation = None, enabled = None, threshold = None\<rparr>,
          suggestion = None,
          metadata = None\<rparr>],
      metrics =
        \<lparr>complexity = 0, lines = Suc (count_list content (CHR 0x0A)),
         n_functions = 0, n_classes = 0\<rparr>\<rparr>"
  using assms
  by (simp add: analyzeFile_def caught_def parse_error_issue_def inline_rule_def length_split_on)

theorem analyzeFile_parse_failure_witness:
  "parseFile failing_parsers [CHR ''x'', CHR 0x0A, CHR ''=''] ''javascript''
     = Inl (Error ''Line 1: Unexpected end of input'')
   \<and> map rule_id (map rule (issues (analyzeFile engine_rules failing_parsers
          \<lparr>now_complexity = 0, now_catch = 7\<rparr> ''a.js'' [CHR ''x'', CHR 0x0A, CHR ''='']
          ''javascript''))) = [''parse-error'']
   \<and> metrics (analyzeFile engine_rules failing_parsers
          \<lparr>now_complexity = 0, now_catch = 7\<rparr> ''a.js'' [CHR ''x'', CHR 0x0A, CHR ''='']
          ''javascript'')
       = \<lparr>complexity = 0, lines = 2, n_functions = 0, n_classes = 0\<rparr>"
proof -
  have p: "parseFile failing_parsers [CHR ''x'', CHR 0x0A, CHR ''=''] ''javascript''
     = Inl (Error ''Line 1: Unexpected end of input'')"
    by (simp add: parseFile_def failing_parsers_def)
  show ?thesis
    using p analyzeFile_parse_failure [OF p, of engine_rules "\<lparr>now_complexity = 0, now_catch = 7\<rparr>" "''a.js''"]
    by simp
qed

text \<open>
  C2. \<^verbatim>\<open>calculateComplexity\<close> returns 1 plus the number of nodes of the tree that
  are an \<^verbatim>\<open>if\<close> statement, a conditional expression, a \<^verbatim>\<open>switch\<close> case, a loop
  (for, for-in, for-of, while, do-while), a \<^verbatim>\<open>catch\<close> clause, or a logical expression
  with operator \<^verbatim>\<open>&&\<close> or \<^verbatim>\<open>||\<close>. It never throws and never returns less than 1.
  Twelve \<^verbatim>\<open>if\<close> statements and nothing else that counts give 13.
\<close>

theorem calculateComplexity_counts_decision_points:
  "calculateComplexity ast = Inr (1 + int (length (filter is_decision_point (tree_nodes ast))))
   \<and> (\<exists>c. calculateComplexity ast = Inr c \<and> 1 \<le> c)
   \<and> length (filter (\<lambda>n. has_type n ''IfStatement'') (tree_nodes twelve_ifs)) = 12
   \<and> length (filter is_decision_point (tree_nodes twelve_ifs)) = 12
   \<and> calculateComplexity twelve_ifs = Inr 13"
proof -
  have counts: "length (filter (\<lambda>n. has_type n ''IfStatement'') (tree_nodes twelve_ifs)) = 12
      \<and> length (filter is_decision_point (tree_nodes twelve_ifs)) = 12"
    by code_simp
  have thirteen: "calculateComplexity twelve_ifs = Inr 13"
    by code_simp
  show ?thesis
    using counts thirteen by (simp add: calculateComplexity_eq)
qed

text \<open>
  C3. With a complexity rule whose threshold is \<open>t\<close> (10 in the engine's own rules),
  \<^verbatim>\<open>analyzeComplexity\<close> returns one issue when the file's cyclomatic complexity is
  greater than \<open>t\<close> and none otherwise. The issue is of type \<^verbatim>\<open>complexity\<close>, at
  line 1, column 1, with severity \<^verbatim>\<open>high\<close> when the complexity is greater than 20 and
  \<^verbatim>\<open>medium\<close> otherwise.
\<close>

theorem analyzeComplexity_threshold:
  assumes "threshold (complexity_rule rs) = Some t"
  shows "threshold (complexity_rule engine_rules) = Some 10
   \<and> analyzeComplexity rs now ast filePath =
     (let c = 1 + int (length (filter is_decision_point (tree_nodes ast))) in
      Inr (if c > t then
             [\<lparr>issue_id = ''complexity-'' @ filePath @ ''-'' @ show_int now,
               issue_type = ''complexity'',
               severity = (if c > 20 then ''high'' else ''medium''),
               title = ''High Cyclomatic Complexity ('' @ show_int c @ '')'',
               description =
                 ''This file has a cyclomatic complexity of '' @ show_int c
                 @ '', which exceeds the recommended threshold of '' @ show_int t @ ''.'',
               issue_file = \<lparr>path = filePath, line = JNum 1, column = JNum 1\<rparr>,
               rule = complexity_rule rs,
               suggestion = Some
                 \<lparr>fix_text = ''Consider breaking down complex functions into smaller, more manageable pieces.'',
                  confidence = 80\<rparr>,
               metadata = None\<rparr>]
           else []))"
  using assms
  by (simp add: analyzeComplexity_def calculateComplexity_eq and_then_def complexity_issue_def
      engine_rules_def Let_def)

theorem analyzeComplexity_threshold_witness:
  "threshold (complexity_rule engine_rules) = Some 10
   \<and> map (\<lambda>i. (issue_type i, severity i, line (issue_file i)))
        (projr (analyzeComplexity engine_rules 0 twelve_ifs ''a.js''))
      = [(''complexity'', ''medium'', JNum 1)]
   \<and> analyzeComplexity engine_rules 0 (program []) ''a.js'' = Inr []"
proof -
  have t: "threshold (complexity_rule engine_rules) = Some 10"
    by (simp add: engine_rules_def)
  have twelve: "length (filter is_decision_point (tree_nodes twelve_ifs)) = 12"
    by code_simp
  have none: "length (filter is_decision_point (tree_nodes (program []))) = 0"
    by code_simp
  show ?thesis
    using t twelve none
      analyzeComplexity_threshold [OF t, of 0 twelve_ifs "''a.js''"]
      analyzeComplexity_threshold [OF t, of 0 "program []" "''a.js''"]
    by (simp add: Let_def)
qed

text \<open>
  C4. For the languages \<^verbatim>\<open>javascript\<close> and \<^verbatim>\<open>typescript\<close>, on a tree whose
  \<^verbatim>\<open>eval\<close> calls and \<^verbatim>\<open>innerHTML\<close> accesses carry their location, the security
  analyzer returns, and its issues with rule id \<^verbatim>\<open>no-eval\<close> are, in walk order, one
  per call expression whose callee is named \<^verbatim>\<open>eval\<close>: severity \<^verbatim>\<open>critical\<close>,
  CWE-95, at the line and column where the call starts. For every other language it
  returns no issue.
\<close>

theorem analyzeSecurity_eval:
  "(language = ''javascript'' \<or> language = ''typescript'' \<longrightarrow>
      (\<forall>n \<in> set (tree_nodes ast). is_eval_call n \<or> is_innerHTML n \<longrightarrow> located n) \<longrightarrow>
      (\<exists>found. analyzeSecurity ast filePath language = Inr found
         \<and> filter (\<lambda>i. rule_id (rule i) = ''no-eval'') found =
             map (\<lambda>n.
                \<lparr>issue_id = ''security-eval-'' @ filePath @ ''-'' @ js_to_string (line_of n),
                 issue_type = ''security'',
                 severity = ''critical'',
                 title = ''Dangerous eval() usage'',
                 description = ''Using eval() can lead to code injection vulnerabilities.'',
                 issue_file = \<lparr>path = filePath, line = line_of n, column = column_of n\<rparr>,
                 rule = \<lparr>rule_id = ''no-eval'', rule_name = ''No eval()'',
                         category = ''security'',
                         documentation = Some ''https://eslint.org/docs/rules/no-eval'',
                         enabled = None, threshold = None\<rparr>,
                 suggestion = None,
                 metadata = Some \<lparr>cwe = [''CWE-95'']\<rparr>\<rparr>)
               (filter is_eval_call (tree_nodes ast))))
   \<and> (language \<noteq> ''javascript'' \<and> language \<noteq> ''typescript'' \<longrightarrow>
        analyzeSecurity ast filePath language = Inr [])"
proof (intro conjI impI)
  assume lang: "language = ''javascript'' \<or> language = ''typescript''"
    and loc: "\<forall>n \<in> set (tree_nodes ast). is_eval_call n \<or> is_innerHTML n \<longrightarrow> located n"
  let ?found = "concat (map (security_found filePath) (tree_nodes ast))"
  have "analyzeSecurity ast filePath language = Inr ?found"
    using lang loc by (rule analyzeSecurity_located)
  moreover have "filter (\<lambda>i. rule_id (rule i) = ''no-eval'') ?found
      = map (eval_found filePath) (filter is_eval_call (tree_nodes ast))"
    by (rule filter_no_eval)
  ultimately show "\<exists>found. analyzeSecurity ast filePath language = Inr found
         \<and> filter (\<lambda>i. rule_id (rule i) = ''no-eval'') found =
             map (\<lambda>n.
                \<lparr>issue_id = ''security-eval-'' @ filePath @ ''-'' @ js_to_string (line_of n),
                 issue_type = ''security'',
                 severity = ''critical'',
                 title = ''Dangerous eval() usage'',
                 description = ''Using eval() can lead to code injection vulnerabilities.'',
                 issue_file = \<lparr>path = filePath, line = line_of n, column = column_of n\<rparr>,
                 rule = \<lparr>rule_id = ''no-eval'', rule_name = ''No eval()'',
                         category = ''security'',
                         documentation = Some ''https://eslint.org/docs/rules/no-eval'',
                         enabled = None, threshold = None\<rparr>,
                 suggestion = None,
                 metadata = Some \<lparr>cwe = [''CWE-95'']\<rparr>\<rparr>)
               (filter is_eval_call (tree_nodes ast))"
    unfolding eval_found_def by blast
next
  assume "language \<noteq> ''javascript'' \<and> language \<noteq> ''typescript''"
  then show "analyzeSecurity ast filePath language = Inr []"
    by (simp add: analyzeSecurity_def)
qed

theorem analyzeSecurity_eval_witness:
  "list_all (\<lambda>n. is_eval_call n \<or> is_innerHTML n \<longrightarrow> located n) (tree_nodes eval_example)
   \<and> filter is_eval_call (tree_nodes eval_example) = [call_eval 1 0, call_eval 3 0]
   \<and> (\<exists>found. analyzeSecurity eval_example ''a.js'' ''javascript'' = Inr found
        \<and> map (\<lambda>i. (issue_id i, severity i, line (issue_file i)))
             (filter (\<lambda>i. rule_id (rule i) = ''no-eval'') found)
           = [(''security-eval-a.js-1'', ''critical'', JNum 1),
              (''security-eval-a.js-3'', ''critical'', JNum 3)])
   \<and> analyzeSecurity eval_example ''a.py'' ''python'' = Inr []"
proof -
  have h: "\<forall>n \<in> set (tree_nodes eval_example). is_eval_call n \<or> is_innerHTML n \<longrightarrow> located n"
    by code_simp
  have calls: "filter is_eval_call (tree_nodes eval_example) = [call_eval 1 0, call_eval 3 0]"
    by code_simp
  have lines: "line_of (call_eval 1 0) = JNum 1" "line_of (call_eval 3 0) = JNum 3"
    "js_to_string (JNum 1) = ''1''" "js_to_string (JNum 3) = ''3''"
    by code_simp+
  show ?thesis
    using h calls lines analyzeSecurity_eval [of "''javascript''" eval_example "''a.js''"]
      analyzeSecurity_eval [of "''python''" eval_example "''a.py''"]
    by (auto simp: list_all_iff)
qed

text \<open>
  C7, as the specification states it, fails: two calls of \<^verbatim>\<open>eval\<close> on one line give
  two different issues with one id.
\<close>

theorem same_line_ids_collide_counterexample:
  "analyzeSecurity same_line_evals ''a.js'' ''javascript''
     = Inr [eval_found ''a.js'' (call_eval 1 0), eval_found ''a.js'' (call_eval 1 9)]
   \<and> eval_found ''a.js'' (call_eval 1 0) \<noteq> eval_found ''a.js'' (call_eval 1 9)
   \<and> issue_id (eval_found ''a.js'' (call_eval 1 0)) = ''security-eval-a.js-1''
   \<and> issue_id (eval_found ''a.js'' (call_eval 1 9)) = ''security-eval-a.js-1''"
  by code_simp

text \<open>
  C7, amended. Among the issues the security and the performance analyzer return for
  one file, two issues whose lines are numbers have the same id exactly when they
  have the same rule and the same line: issues of different rules, or on different
  lines, never share an id, and issues of one rule on one line always do.
\<close>

theorem issue_ids_equal_iff_same_rule_and_line:
  assumes "analyzeSecurity ast filePath language = Inr s"
    and "analyzePerformance ast filePath language = Inr p"
    and "a \<in> set (s @ p)" and "b \<in> set (s @ p)"
    and "line (issue_file a) = JNum la" and "line (issue_file b) = JNum lb"
  shows "issue_id a = issue_id b \<longleftrightarrow> rule_id (rule a) = rule_id (rule b) \<and> la = lb"
proof -
  have "keyed filePath a" "keyed filePath b"
    using assms(1-4) analyzeSecurity_keyed analyzePerformance_keyed by auto
  then show ?thesis using assms(5,6) by (rule keyed_ids)
qed

theorem issue_ids_equal_iff_same_rule_and_line_witness:
  "analyzeSecurity eval_example ''a.js'' ''javascript''
     = Inr [eval_found ''a.js'' (call_eval 1 0),
            innerHTML_found ''a.js'' (member (ident_node ''d'' 2 0) ''innerHTML'' 2 0),
            eval_found ''a.js'' (call_eval 3 0)]
   \<and> analyzePerformance eval_example ''a.js'' ''javascript'' = Inr []
   \<and> line (issue_file (eval_found ''a.js'' (call_eval 1 0))) = JNum 1
   \<and> line (issue_file (eval_found ''a.js'' (call_eval 3 0))) = JNum 3
   \<and> issue_id (eval_found ''a.js'' (call_eval 1 0))
       \<noteq> issue_id (eval_found ''a.js'' (call_eval 3 0))"
proof -
  have s: "analyzeSecurity eval_example ''a.js'' ''javascript''
     = Inr [eval_found ''a.js'' (call_eval 1 0),
            innerHTML_found ''a.js'' (member (ident_node ''d'' 2 0) ''innerHTML'' 2 0),
            eval_found ''a.js'' (call_eval 3 0)]"
    by code_simp
  have p: "analyzePerformance eval_example ''a.js'' ''javascript'' = Inr []"
    by code_simp
  have la: "line (issue_file (eval_found ''a.js'' (call_eval 1 0))) = JNum 1"
    and lb: "line (issue_file (eval_found ''a.js'' (call_eval 3 0))) = JNum 3"
    by code_simp+
  have "issue_id (eval_found ''a.js'' (call_eval 1 0))
      = issue_id (eval_found ''a.js'' (call_eval 3 0))
    \<longleftrightarrow> rule_id (rule (eval_found ''a.js'' (call_eval 1 0)))
        = rule_id (rule (eval_found ''a.js'' (call_eval 3 0))) \<and> (1::int) = 3"
    by (rule issue_ids_equal_iff_same_rule_and_line [OF s p _ _ la lb]) simp_all
  then show ?thesis using s p la lb by simp
qed

text \<open>
  C8. For \<^verbatim>\<open>javascript\<close> and \<^verbatim>\<open>typescript\<close>, on a tree as a front-end builds it:
  when the walk visits a \<^verbatim>\<open>return\<close> statement that is element \<open>i\<close> of the
  \<^verbatim>\<open>body\<close> of a \<^verbatim>\<open>BlockStatement\<close> and is not its last element, the bug analyzer
  returns an issue of type \<^verbatim>\<open>bug\<close> and severity \<^verbatim>\<open>medium\<close> whose line and column
  are those where element \<open>i + 1\<close> starts. (The line of the \<^verbatim>\<open>return\<close> itself only
  enters the issue's id.)
\<close>

theorem analyzeBugs_unreachable_location:
  assumes "language = ''javascript'' \<or> language = ''typescript''"
    and "\<forall>u \<in> set (visits (root ast)). bugs_ready u"
    and "v \<in> set (visits (root ast))"
    and "has_type (node v) ''ReturnStatement''"
    and "has_type (parent v) ''BlockStatement''"
    and "get_prop (parent v) ''body'' = JArr stmts"
    and "key v = ''body''" and "index v = Some i"
    and "Suc i < length stmts"
  shows "\<exists>found. analyzeBugs ast filePath language = Inr found
    \<and> \<lparr>issue_id = ''bug-unreachable-'' @ filePath @ ''-'' @ js_to_string (line_of (node v)),
        issue_type = ''bug'',
        severity = ''medium'',
        title = ''Unreachable code after return'',
        description = ''Code after return statement will never be executed.'',
        issue_file = \<lparr>path = filePath, line = line_of (stmts ! Suc i),
                        column = column_of (stmts ! Suc i)\<rparr>,
        rule = \<lparr>rule_id = ''no-unreachable'', rule_name = ''No unreachable code'',
                category = ''bug'', documentation = None, enabled = None, threshold = None\<rparr>,
        suggestion = None,
        metadata = None\<rparr> \<in> set found"
proof -
  have idx: "index_in_body v = int i"
    using assms(7,8) by (simp add: index_in_body_def)
  have p: "truthy (parent v)"
    using assms(5) by (cases "parent v") (simp_all add: has_type_def)
  have dead: "is_dead_code_return v"
    using assms(4,5,6,9) p idx by (simp add: is_dead_code_return_def)
  have nxt: "next_statement v = stmts ! Suc i"
    using assms(6,9) idx by (simp add: next_statement_def nth_js_def nat_add_distrib)
  have "unreachable_found filePath v \<in> set (bugs_found filePath v)"
    using dead by (simp add: bugs_found_def)
  then have "unreachable_found filePath v
      \<in> set (concat (map (bugs_found filePath) (visits (root ast))))"
    using assms(3) by auto
  then show ?thesis
    using analyzeBugs_ready [OF assms(1,2), of filePath] nxt
    by (simp add: unreachable_found_def)
qed

theorem analyzeBugs_unreachable_location_witness:
  "list_all bugs_ready (visits (root dead_code_example))
   \<and> \<lparr>node = return_statement 2 2, parent = dead_code_block, key = ''body'', index = Some 0\<rparr>
       \<in> set (visits (root dead_code_example))
   \<and> get_prop dead_code_block ''body''
       = JArr [return_statement 2 2, expression_statement (ident_node ''x'' 3 2) 3 2]
   \<and> (\<exists>found. analyzeBugs dead_code_example ''a.js'' ''javascript'' = Inr found
        \<and> (\<exists>f \<in> set found. issue_type f = ''bug'' \<and> severity f = ''medium''
              \<and> issue_file f = \<lparr>path = ''a.js'', line = JNum 3, column = JNum 2\<rparr>))"
proof -
  let ?v = "\<lparr>node = return_statement 2 2, parent = dead_code_block, key = ''body'',
             index = Some 0\<rparr>"
  let ?stmts = "[return_statement 2 2, expression_statement (ident_node ''x'' 3 2) 3 2]"
  have ready: "\<forall>u \<in> set (visits (root dead_code_example)). bugs_ready u"
    by code_simp
  have v: "?v \<in> set (visits (root dead_code_example))"
    by code_simp
  have body: "get_prop (parent ?v) ''body'' = JArr ?stmts"
    by code_simp
  have types: "has_type (node ?v) ''ReturnStatement''" "has_type (parent ?v) ''BlockStatement''"
    by code_simp+
  have lines: "line_of (?stmts ! Suc 0) = JNum 3" "column_of (?stmts ! Suc 0) = JNum 2"
    by code_simp+
  from analyzeBugs_unreachable_location [of "''javascript''" dead_code_example ?v ?stmts 0 "''a.js''",
      OF _ ready v types body]
  obtain found fnd where found: "analyzeBugs dead_code_example ''a.js'' ''javascript'' = Inr found"
    and mem: "fnd \<in> set found"
    and fnd: "issue_type fnd = ''bug''" "severity fnd = ''medium''"
      "issue_file fnd = \<lparr>path = ''a.js'', line = line_of (?stmts ! Suc 0),
                          column = column_of (?stmts ! Suc 0)\<rparr>"
    by force
  have "\<exists>f \<in> set found. issue_type f = ''bug'' \<and> severity f = ''medium''
      \<and> issue_file f = \<lparr>path = ''a.js'', line = JNum 3, column = JNum 2\<rparr>"
    using mem fnd lines by (intro bexI [of _ fnd]) simp_all
  then show ?thesis
    using ready v body found by (simp add: list_all_iff)
qed

text \<open>
  C5, as the specification states it, fails. On this tree the security analyzer
  throws, and the bug analyzer, run by itself, returns one issue. \<^verbatim>\<open>analyzeFile\<close>
  returns neither "no issue for the security analyzer" nor the bug analyzer's issue:
  its one issue is the synthetic \<^verbatim>\<open>parse-error\<close> issue with the message of the
  error the security analyzer threw.
\<close>

theorem analyzer_failure_counterexample:
  "analyzeSecurity throwing_example ''a.js'' ''javascript''
     = Inl (TypeError (''Cannot read properties of undefined (reading ''
                       @ [CHR 0x27] @ ''start'' @ [CHR 0x27] @ '')''))
   \<and> analyzeBugs throwing_example ''a.js'' ''javascript''
       = Inr [assignment_found ''a.js''
                (if_statement (assignment_expression 2 4) (block [] 2 11) 2)]
   \<and> map (\<lambda>i. (rule_id (rule i), description i))
        (issues (analyzeFile engine_rules throwing_example_parsers
           \<lparr>now_complexity = 0, now_catch = 7\<rparr> ''a.js'' ''eval(); if (a = b) {}''
           ''javascript''))
       = [(''parse-error'',
           ''Failed to parse file: Cannot read properties of undefined (reading ''
           @ [CHR 0x27] @ ''start'' @ [CHR 0x27] @ '')'')]"
  by code_simp

text \<open>
  C5, amended. \<^verbatim>\<open>analyzeFile\<close> has one \<^verbatim>\<open>try\<close> around parsing, the analyzers and
  the metrics, and always returns. The complexity analyzer and the three metrics never
  throw. When the security, performance or bug analyzer throws, the issues of the
  analyzers that ran before it are kept, the analyzers after it and the metrics are not
  run, one \<^verbatim>\<open>parse-error\<close> issue with the message of the error is appended, and the
  metrics keep complexity 0, 0 functions and 0 classes.
\<close>

theorem analyzeFile_analyzer_failure:
  assumes "parseFile ps content language = Inr ast" and "truthy ast"
  shows "\<exists>i1 c f k.
     analyzeComplexity rs (now_complexity clk) ast filePath = Inr i1
     \<and> calculateComplexity ast = Inr c \<and> countFunctions ast = Inr f
     \<and> countClasses ast = Inr k
     \<and> analyzeFile rs ps clk filePath content language =
       (let m0 = \<lparr>complexity = 0, lines = length (split_on (CHR 0x0A) content),
                  n_functions = 0, n_classes = 0\<rparr>;
            failure = parse_error_issue filePath (now_catch clk)
        in case analyzeSecurity ast filePath language of
             Inl e \<Rightarrow> \<lparr>issues = i1 @ [failure e], metrics = m0\<rparr>
           | Inr i2 \<Rightarrow>
               (case analyzePerformance ast filePath language of
                  Inl e \<Rightarrow> \<lparr>issues = i1 @ i2 @ [failure e], metrics = m0\<rparr>
                | Inr i3 \<Rightarrow>
                    (case analyzeBugs ast filePath language of
                       Inl e \<Rightarrow> \<lparr>issues = i1 @ i2 @ i3 @ [failure e], metrics = m0\<rparr>
                     | Inr i4 \<Rightarrow>
                         \<lparr>issues = i1 @ i2 @ i3 @ i4,
                          metrics = \<lparr>complexity = c,
                                     lines = length (split_on (CHR 0x0A) content),
                                     n_functions = f, n_classes = k\<rparr>\<rparr>)))"
proof -
  obtain i1 where i1: "analyzeComplexity rs (now_complexity clk) ast filePath = Inr i1"
    using analyzeComplexity_total by blast
  obtain c where c: "calculateComplexity ast = Inr c"
    by (simp add: calculateComplexity_eq)
  obtain f where f: "countFunctions ast = Inr f"
    using countFunctions_total by blast
  obtain k where k: "countClasses ast = Inr k"
    using countClasses_total by blast
  have "analyzeFile rs ps clk filePath content language =
       (let m0 = \<lparr>complexity = 0, lines = length (split_on (CHR 0x0A) content),
                  n_functions = 0, n_classes = 0\<rparr>;
            failure = parse_error_issue filePath (now_catch clk)
        in case analyzeSecurity ast filePath language of
             Inl e \<Rightarrow> \<lparr>issues = i1 @ [failure e], metrics = m0\<rparr>
           | Inr i2 \<Rightarrow>
               (case analyzePerformance ast filePath language of
                  Inl e \<Rightarrow> \<lparr>issues = i1 @ i2 @ [failure e], metrics = m0\<rparr>
                | Inr i3 \<Rightarrow>
                    (case analyzeBugs ast filePath language of
                       Inl e \<Rightarrow> \<lparr>issues = i1 @ i2 @ i3 @ [failure e], metrics = m0\<rparr>
                     | Inr i4 \<Rightarrow>
                         \<lparr>issues = i1 @ i2 @ i3 @ i4,
                          metrics = \<lparr>complexity = c,
                                     lines = length (split_on (CHR 0x0A) content),
                                     n_functions = f, n_classes = k\<rparr>\<rparr>)))"
    using assms i1 c f k
    by (simp add: analyzeFile_def caught_def Let_def split: sum.splits)
  then show ?thesis using i1 c f k by blast
qed

theorem analyzeFile_analyzer_failure_witness:
  "parseFile throwing_example_parsers ''eval(); if (a = b) {}'' ''javascript''
     = Inr throwing_example
   \<and> truthy throwing_example
   \<and> analyzeFile engine_rules throwing_example_parsers \<lparr>now_complexity = 0, now_catch = 7\<rparr>
        ''a.js'' ''eval(); if (a = b) {}'' ''javascript''
     = \<lparr>issues =
          [parse_error_issue ''a.js'' 7
             (TypeError (''Cannot read properties of undefined (reading ''
                         @ [CHR 0x27] @ ''start'' @ [CHR 0x27] @ '')''))],
        metrics = \<lparr>complexity = 0, lines = 1, n_functions = 0, n_classes = 0\<rparr>\<rparr>"
proof -
  have p: "parseFile throwing_example_parsers ''eval(); if (a = b) {}'' ''javascript''
     = Inr throwing_example"
    by (simp add: parseFile_def throwing_example_parsers_def)
  have t: "truthy throwing_example"
    by (simp add: throwing_example_def program_def)
  have c: "analyzeComplexity engine_rules 0 throwing_example ''a.js'' = Inr []"
    by code_simp
  have s: "analyzeSecurity throwing_example ''a.js'' ''javascript''
     = Inl (TypeError (''Cannot read properties of undefined (reading ''
                       @ [CHR 0x27] @ ''start'' @ [CHR 0x27] @ '')''))"
    by code_simp
  have l: "length (split_on (CHR 0x0A) ''eval(); if (a = b) {}'') = 1"
    by code_simp
  show ?thesis
    using p t c s l
      analyzeFile_analyzer_failure [OF p t, of engine_rules
        "\<lparr>now_complexity = 0, now_catch = 7\<rparr>" "''a.js''"]
    by (auto simp: Let_def)
qed

text \<open>
  C10. The languages the resolver can return are javascript, typescript, python, java,
  go, rust and cpp, the last five for the extensions \<^verbatim>\<open>.py\<close>, \<^verbatim>\<open>.java\<close>, \<^verbatim>\<open>.go\<close>,
  \<^verbatim>\<open>.rs\<close> and \<^verbatim>\<open>.cpp .cc .cxx .hpp .h\<close>. For each of these five \<^verbatim>\<open>analyzeFile\<close>
  returns no issue, whatever the content: python is parsed to the fixed empty
  \<^verbatim>\<open>Module\<close> tree (complexity 1, no functions, no classes), and for the other four
  \<^verbatim>\<open>parseFile\<close> returns null, no analyzer runs and the complexity stays 0.
\<close>

theorem analyzeFile_other_languages:
  assumes "language \<in> {''python'', ''java'', ''go'', ''rust'', ''cpp''}"
  shows "issues (analyzeFile engine_rules ps clk filePath content language) = []
   \<and> (language = ''python'' \<longrightarrow>
        parseFile ps content language =
          Inr (JObj [(''type'', JStr ''Module''), (''body'', JArr []),
                     (''loc'', JObj [(''start'', JObj [(''line'', JNum 1), (''column'', JNum 0)]),
                                     (''end'', JObj [(''line'', JNum 1), (''column'', JNum 0)])])])
        \<and> metrics (analyzeFile engine_rules ps clk filePath content language)
           = \<lparr>complexity = 1, lines = Suc (count_list content (CHR 0x0A)),
              n_functions = 0, n_classes = 0\<rparr>)
   \<and> (language \<noteq> ''python'' \<longrightarrow>
        parseFile ps content language = Inr JNull
        \<and> metrics (analyzeFile engine_rules ps clk filePath content language)
           = \<lparr>complexity = 0, lines = Suc (count_list content (CHR 0x0A)),
              n_functions = 0, n_classes = 0\<rparr>)
   \<and> (\<forall>l. getLanguageFromFile ext filePath = Some l \<longrightarrow>
          l \<in> {''javascript'', ''typescript'', ''python'', ''java'', ''go'', ''rust'', ''cpp''})
   \<and> (toLowerCase (ext filePath) = ''.py'' \<longrightarrow> getLanguageFromFile ext filePath = Some ''python'')
   \<and> (toLowerCase (ext filePath) = ''.java'' \<longrightarrow> getLanguageFromFile ext filePath = Some ''java'')
   \<and> (toLowerCase (ext filePath) = ''.go'' \<longrightarrow> getLanguageFromFile ext filePath = Some ''go'')
   \<and> (toLowerCase (ext filePath) = ''.rs'' \<longrightarrow> getLanguageFromFile ext filePath = Some ''rust'')
   \<and> (toLowerCase (ext filePath) \<in> {''.cpp'', ''.cc'', ''.cxx'', ''.hpp'', ''.h''} \<longrightarrow>
        getLanguageFromFile ext filePath = Some ''cpp'')"
proof -
  have other: "language \<noteq> ''javascript''" "language \<noteq> ''typescript''"
    using assms by auto
  have gated: "analyzeSecurity ast filePath language = Inr []"
    "analyzePerformance ast filePath language = Inr []"
    "analyzeBugs ast filePath language = Inr []" for ast
    using other by (simp_all add: analyzeSecurity_def analyzePerformance_def analyzeBugs_def)
  have py: "language = ''python'' \<Longrightarrow>
      analyzeFile engine_rules ps clk filePath content language
        = \<lparr>issues = [],
           metrics = \<lparr>complexity = 1, lines = Suc (count_list content (CHR 0x0A)),
                      n_functions = 0, n_classes = 0\<rparr>\<rparr>"
    using gated [of "parsePython []"] python_module_metrics
    by (simp add: analyzeFile_def parseFile_def parsePython_const [of content] length_split_on)
  have nopy: "language \<noteq> ''python'' \<Longrightarrow>
      analyzeFile engine_rules ps clk filePath content language
        = \<lparr>issues = [],
           metrics = \<lparr>complexity = 0, lines = Suc (count_list content (CHR 0x0A)),
                      n_functions = 0, n_classes = 0\<rparr>\<rparr>"
    using other by (simp add: analyzeFile_def parseFile_def length_split_on)
  have parse: "language = ''python'' \<Longrightarrow> parseFile ps content language =
          Inr (JObj [(''type'', JStr ''Module''), (''body'', JArr []),
                     (''loc'', JObj [(''start'', JObj [(''line'', JNum 1), (''column'', JNum 0)]),
                                     (''end'', JObj [(''line'', JNum 1), (''column'', JNum 0)])])])"
    "language \<noteq> ''python'' \<Longrightarrow> parseFile ps content language = Inr JNull"
    using other by (simp_all add: parseFile_def parsePython_def)
  have table: "(\<forall>l. getLanguageFromFile ext filePath = Some l \<longrightarrow>
          l \<in> {''javascript'', ''typescript'', ''python'', ''java'', ''go'', ''rust'', ''cpp''})
   \<and> (toLowerCase (ext filePath) = ''.py'' \<longrightarrow> getLanguageFromFile ext filePath = Some ''python'')
   \<and> (toLowerCase (ext filePath) = ''.java'' \<longrightarrow> getLanguageFromFile ext filePath = Some ''java'')
   \<and> (toLowerCase (ext filePath) = ''.go'' \<longrightarrow> getLanguageFromFile ext filePath = Some ''go'')
   \<and> (toLowerCase (ext filePath) = ''.rs'' \<longrightarrow> getLanguageFromFile ext filePath = Some ''rust'')
   \<and> (toLowerCase (ext filePath) \<in> {''.cpp'', ''.cc'', ''.cxx'', ''.hpp'', ''.h''} \<longrightarrow>
        getLanguageFromFile ext filePath = Some ''cpp'')"
    unfolding getLanguageFromFile_table [of ext filePath] Let_def
    by (auto split: if_splits)
  show ?thesis
    using py nopy parse table by (cases "language = ''python''") simp_all
qed

theorem analyzeFile_other_languages_witness:
  "getLanguageFromFile simple_extname ''Main.PY'' = Some ''python''
   \<and> analyzeFile engine_rules failing_parsers \<lparr>now_complexity = 0, now_catch = 7\<rparr>
        ''Main.PY'' ''eval(1)'' ''python''
       = \<lparr>issues = [],
          metrics = \<lparr>complexity = 1, lines = 1, n_functions = 0, n_classes = 0\<rparr>\<rparr>
   \<and> getLanguageFromFile simple_extname ''lib.rs'' = Some ''rust''
   \<and> analyzeFile engine_rules failing_parsers \<lparr>now_complexity = 0, now_catch = 7\<rparr>
        ''lib.rs'' ''eval(1)'' ''rust''
       = \<lparr>issues = [],
          metrics = \<lparr>complexity = 0, lines = 1, n_functions = 0, n_classes = 0\<rparr>\<rparr>"
proof -
  have py: "''python'' \<in> {''python'', ''java'', ''go'', ''rust'', ''cpp''}"
    and rs: "''rust'' \<in> {''python'', ''java'', ''go'', ''rust'', ''cpp''}"
    by simp_all
  have ext: "toLowerCase (simple_extname ''Main.PY'') = ''.py''"
    "toLowerCase (simple_extname ''lib.rs'') = ''.rs''"
    by code_simp+
  have n: "count_list ''eval(1)'' (CHR 0x0A) = 0"
    by code_simp
  have a: "analyzeFile engine_rules failing_parsers \<lparr>now_complexity = 0, now_catch = 7\<rparr>
        ''Main.PY'' ''eval(1)'' ''python''
       = \<lparr>issues = [],
          metrics = \<lparr>complexity = 1, lines = 1, n_functions = 0, n_classes = 0\<rparr>\<rparr>"
    using n analyzeFile_other_languages [OF py, of failing_parsers
        "\<lparr>now_complexity = 0, now_catch = 7\<rparr>" "''Main.PY''" "''eval(1)''" simple_extname]
    by (intro analysis.equality) simp_all
  have b: "analyzeFile engine_rules failing_parsers \<lparr>now_complexity = 0, now_catch = 7\<rparr>
        ''lib.rs'' ''eval(1)'' ''rust''
       = \<lparr>issues = [],
          metrics = \<lparr>complexity = 0, lines = 1, n_functions = 0, n_classes = 0\<rparr>\<rparr>"
    using n analyzeFile_other_languages [OF rs, of failing_parsers
        "\<lparr>now_complexity = 0, now_catch = 7\<rparr>" "''lib.rs''" "''eval(1)''" simple_extname]
    by (intro analysis.equality) simp_all
  show ?thesis
    using a b ext
      analyzeFile_other_languages [OF py, of failing_parsers
        "\<lparr>now_complexity = 0, now_catch = 7\<rparr>" "''Main.PY''" "''eval(1)''" simple_extname]
      analyzeFile_other_languages [OF rs, of failing_parsers
        "\<lparr>now_complexity = 0, now_catch = 7\<rparr>" "''lib.rs''" "''eval(1)''" simple_extname]
    by simp
qed


text \<open>
  C9. The code departs from the claim at \<^verbatim>\<open>do ... while\<close> statements.
  \<^verbatim>\<open>findNestedLoops\<close> counts a \<^verbatim>\<open>DoWhileStatement\<close> as a loop, and so does
  \<^verbatim>\<open>calculateComplexity\<close>; a \<^verbatim>\<open>while\<close> statement around two nested \<^verbatim>\<open>for\<close> loops
  has depth 3 and gets its issue, citing 3 levels. The same nest under a
  \<^verbatim>\<open>do ... while\<close> has depth 3 as well, and the performance analyzer, which tests the
  depth only at \<^verbatim>\<open>ForStatement\<close> and \<^verbatim>\<open>WhileStatement\<close> nodes, returns nothing.
\<close>

theorem nested_loops_do_while_not_flagged:
  "has_type do_while_example ''DoWhileStatement''
   \<and> is_counted_loop do_while_example
   \<and> is_decision_point do_while_example
   \<and> findNestedLoops do_while_example 0 = 3
   \<and> analyzePerformance (program [do_while_example]) ''a.js'' ''javascript'' = Inr []
   \<and> findNestedLoops while_example 0 = 3
   \<and> analyzePerformance (program [while_example]) ''a.js'' ''javascript''
       = Inr [nested_loops_found ''a.js'' while_example]
   \<and> severity (nested_loops_found ''a.js'' while_example) = ''medium''
   \<and> title (nested_loops_found ''a.js'' while_example) = ''Deeply nested loops (3 levels)''
   \<and> line (issue_file (nested_loops_found ''a.js'' while_example)) = JNum 1"
  by code_simp

end
